theory Spec2Isabelle
  imports Complex_Main
begin

section \<open>Smart LeadMailer Pro: the job progression engine\<close>

text \<open>
  A shallow embedding of the server side of the repository: the typed Firestore
  helpers (\<^verbatim>\<open>lib/firebase/firestore.ts\<close>), the email inference service, the Places
  and SendGrid services, the input sanitizers, the cron route and the job, send and
  unsubscribe routes.

  Strings are byte lists; the case conversions and the character classes of the
  regular expressions are modelled on ASCII. Timestamps are readings of a logical
  clock that every call to an external service advances.
\<close>

subsection \<open>Data model (\<^verbatim>\<open>lib/types\<close>)\<close>

datatype JobStatus = Draft | Prospecting | Discovering | Sending | Completed | Failed

datatype ProspectStatus =
  Found | No_website | No_email | Email_found | Sent | Bounced | Unsubscribed

datatype EmailSource = Inferred | Scraped | Verified

record Stats =
  found :: nat
  withWebsite :: nat
  withEmail :: nat
  sent :: nat
  bounced :: nat
  unsubscribed :: nat

text \<open>
  A document of a collection has an id, by which the store addresses it, and data. The
  types \<^verbatim>\<open>Job\<close> and \<^verbatim>\<open>Prospect\<close> declare an \<^verbatim>\<open>id\<close> field in the data, which the helpers of
  \<^verbatim>\<open>firestore.ts\<close> never write. \<open>job_id\<close> and \<open>prospect_id\<close> are the id of the document;
  \<open>job_has_id\<close> and \<open>prospect_has_id\<close> say whether its data repeats the id in an \<^verbatim>\<open>id\<close>
  field. What the code reads as \<^verbatim>\<open>job.id\<close> and \<^verbatim>\<open>prospect.id\<close> is that field:
  \<open>job_dot_id\<close> and \<open>prospect_dot_id\<close>, undefined when the data has none.
\<close>

record Job =
  job_id :: string
  job_has_id :: bool
  userId :: string
  job_status :: JobStatus
  job_createdAt :: nat
  job_updatedAt :: nat
  niche :: string
  targetZip :: string
  targetCountry :: string
  radiusKm :: int
  maxBusinesses :: int
  stats :: Stats

record Prospect =
  prospect_id :: string
  prospect_has_id :: bool
  jobId :: string
  prospect_status :: ProspectStatus
  prospect_createdAt :: nat
  prospect_updatedAt :: nat
  name :: string
  address :: string
  website :: "string option"
  phone :: "string option"
  rating :: "rat option"
  reviewCount :: "nat option"
  placeId :: string
  discoveredEmail :: "string option"
  emailSource :: EmailSource
  sendGridMessageId :: "string option"
  sentAt :: "nat option"
  bouncedAt :: "nat option"
  bounceReason :: "string option"
  unsubscribedAt :: "nat option"

definition job_dot_id :: "Job \<Rightarrow> string option" where
  "job_dot_id job = (if job_has_id job then Some (job_id job) else None)"

definition prospect_dot_id :: "Prospect \<Rightarrow> string option" where
  "prospect_dot_id prospect =
     (if prospect_has_id prospect then Some (prospect_id prospect) else None)"

text \<open>
  \<^verbatim>\<open>Omit<Prospect, 'id' | 'status' | 'createdAt' | 'updatedAt'>\<close>, the objects handed to
  \<^verbatim>\<open>batchCreateProspects\<close>. \<open>None\<close> is a property whose value is \<^verbatim>\<open>undefined\<close>.
\<close>

record ProspectData =
  pd_jobId :: "string option"
  pd_placeId :: string
  pd_name :: string
  pd_address :: string
  pd_website :: "string option"
  pd_phone :: "string option"
  pd_rating :: "rat option"
  pd_reviewCount :: "nat option"
  pd_discoveredEmail :: "string option"
  pd_emailSource :: EmailSource
  pd_sendGridMessageId :: "string option"
  pd_sentAt :: "nat option"
  pd_bouncedAt :: "nat option"
  pd_bounceReason :: "string option"
  pd_unsubscribedAt :: "nat option"

record Unsubscribe =
  unsub_id :: string
  unsub_email :: string
  unsub_domain :: string
  unsub_at :: nat
  unsub_jobId :: "string option"

text \<open>
  A JavaScript number, as far as the sanitizers look at it: comparisons and
  \<^verbatim>\<open>Math.round\<close> are exact on doubles, so a finite double is the rational it denotes.
\<close>

datatype js_number = NaN | Fin rat | PosInfinity | NegInfinity

text \<open>
  A thrown JavaScript error, with the three properties the code reads:
  \<^verbatim>\<open>error.code\<close>, \<^verbatim>\<open>error.response.statusCode\<close> and \<^verbatim>\<open>error.message\<close>.
\<close>

datatype js_error =
  Err (err_code: "nat option") (err_statusCode: "nat option") (err_message: "string option")

definition TypeError :: js_error where
  "TypeError = Err None None (Some ''TypeError'')"

text \<open>The read of an identifier that no scope binds; and the error of the Firestore
  client when it is given \<^verbatim>\<open>undefined\<close> for a document id, for a query value or for a
  field of a document to write. The client throws it before it sends a request.\<close>

definition ReferenceError :: js_error where
  "ReferenceError = Err None None (Some ''ReferenceError'')"

definition invalid_argument :: js_error where
  "invalid_argument = Err None None (Some ''INVALID_ARGUMENT'')"

definition store_unavailable :: js_error where
  "store_unavailable = Err (Some 14) None (Some ''UNAVAILABLE'')"

definition store_not_found :: js_error where
  "store_not_found = Err (Some 5) None (Some ''NOT_FOUND'')"

subsection \<open>String primitives of the platform\<close>

definition lower_of :: "char \<Rightarrow> char" where
  "lower_of c =
     (case map_of (zip ''ABCDEFGHIJKLMNOPQRSTUVWXYZ'' ''abcdefghijklmnopqrstuvwxyz'') c of
        Some d \<Rightarrow> d | None \<Rightarrow> c)"

definition upper_of :: "char \<Rightarrow> char" where
  "upper_of c =
     (case map_of (zip ''abcdefghijklmnopqrstuvwxyz'' ''ABCDEFGHIJKLMNOPQRSTUVWXYZ'') c of
        Some d \<Rightarrow> d | None \<Rightarrow> c)"

definition toLowerCase :: "string \<Rightarrow> string" where
  "toLowerCase s = map lower_of s"

definition toUpperCase :: "string \<Rightarrow> string" where
  "toUpperCase s = map upper_of s"

text \<open>\<^verbatim>\<open>s.split(sep)\<close> for a one-character separator: never empty.\<close>

fun split_on :: "char \<Rightarrow> string \<Rightarrow> string list" where
  "split_on sep [] = [[]]"
| "split_on sep (c # cs) =
     (if c = sep then [] # split_on sep cs
      else (case split_on sep cs of p # ps \<Rightarrow> (c # p) # ps | [] \<Rightarrow> [[c]]))"

text \<open>\<^verbatim>\<open>xs[i]\<close> on an array: \<^verbatim>\<open>undefined\<close> out of range.\<close>

definition at_index :: "'a list \<Rightarrow> nat \<Rightarrow> 'a option" where
  "at_index xs i = (if i < length xs then Some (xs ! i) else None)"

definition startsWith :: "string \<Rightarrow> string \<Rightarrow> bool" where
  "startsWith s p = (take (length p) s = p)"

definition is_space :: "char \<Rightarrow> bool" where
  "is_space c = (c \<in> set [CHR '' '', CHR 0x09, CHR 0x0A, CHR 0x0B, CHR 0x0C, CHR 0x0D])"

definition is_digit :: "char \<Rightarrow> bool" where
  "is_digit c = (c \<in> set ''0123456789'')"

definition is_upper :: "char \<Rightarrow> bool" where
  "is_upper c = (c \<in> set ''ABCDEFGHIJKLMNOPQRSTUVWXYZ'')"

definition is_word :: "char \<Rightarrow> bool" where
  "is_word c = (is_upper c \<or> c \<in> set ''abcdefghijklmnopqrstuvwxyz'' \<or> is_digit c \<or> c = CHR ''_'')"

definition trim :: "string \<Rightarrow> string" where
  "trim s = rev (dropWhile is_space (rev (dropWhile is_space s)))"

subsection \<open>Sanitizers (\<^verbatim>\<open>lib/utils/sanitize.ts\<close>)\<close>

definition isNaN :: "js_number \<Rightarrow> bool" where
  "isNaN x = (x = NaN)"

text \<open>\<^verbatim>\<open>x < c\<close> and \<^verbatim>\<open>x > c\<close> against a finite constant; both are false on NaN.\<close>

fun js_less :: "js_number \<Rightarrow> rat \<Rightarrow> bool" where
  "js_less NaN c = False"
| "js_less (Fin x) c = (x < c)"
| "js_less PosInfinity c = False"
| "js_less NegInfinity c = True"

fun js_greater :: "js_number \<Rightarrow> rat \<Rightarrow> bool" where
  "js_greater NaN c = False"
| "js_greater (Fin x) c = (x > c)"
| "js_greater PosInfinity c = True"
| "js_greater NegInfinity c = False"

text \<open>
  \<^verbatim>\<open>Math.round\<close> rounds half up. Both sanitizers call it on a finite number only (the
  guards before it return on NaN and on the infinities), so its value elsewhere is
  never read.
\<close>

fun Math_round :: "js_number \<Rightarrow> int" where
  "Math_round (Fin x) = \<lfloor>x + 1 / 2\<rfloor>"
| "Math_round NaN = 0"
| "Math_round PosInfinity = 0"
| "Math_round NegInfinity = 0"

definition sanitizeRadius :: "js_number \<Rightarrow> int" where
  "sanitizeRadius radius =
     (if isNaN radius \<or> js_less radius 1 then 5
      else if js_greater radius 50 then 50
      else Math_round radius)"

definition sanitizeMaxBusinesses :: "js_number \<Rightarrow> int" where
  "sanitizeMaxBusinesses maxNum =
     (if isNaN maxNum \<or> js_less maxNum 1 then 10
      else if js_greater maxNum 1000 then 1000
      else Math_round maxNum)"

text \<open>The pattern \<^verbatim>\<open>/^\d{5}(-\d{4})?$/\<close>.\<close>

definition is_zip :: "string \<Rightarrow> bool" where
  "is_zip s =
     ((length s = 5 \<and> list_all is_digit s) \<or>
      (length s = 10 \<and> list_all is_digit (take 5 s) \<and> s ! 5 = CHR ''-'' \<and>
       list_all is_digit (drop 6 s)))"

definition sanitizeLocationInput :: "string \<Rightarrow> string option" where
  "sanitizeLocationInput input =
     (if input = [] then None
      else let cleaned = trim input in
        if is_zip cleaned then Some cleaned
        else if length cleaned \<ge> 2 \<and> length cleaned \<le> 100
          then Some (trim (filter (\<lambda>c. is_word c \<or> is_space c \<or> c \<in> set '',.'-'') cleaned))
        else None)"

definition sanitizeNiche :: "string \<Rightarrow> string option" where
  "sanitizeNiche n =
     (if n = [] then None
      else let cleaned = trim n in
        if length cleaned < 2 \<or> length cleaned > 50 then None
        else Some (trim (filter (\<lambda>c. is_word c \<or> is_space c \<or> c = CHR ''-'') cleaned)))"

definition sanitizeCountryCode :: "string \<Rightarrow> string" where
  "sanitizeCountryCode country =
     (if country = [] then ''US''
      else let cleaned = toUpperCase (trim country) in
        if length cleaned = 2 \<and> list_all is_upper cleaned then cleaned else ''US'')"

subsection \<open>The outside world\<close>

text \<open>A message handed to the mail provider: recipient, subject, the
  \<^verbatim>\<open>List-Unsubscribe\<close> link and the custom arguments. The HTML and text bodies and the
  fixed sender fields are left out.\<close>

record Msg =
  msg_to :: "string option"
  msg_subject :: string
  msg_listUnsubscribe :: string
  msg_jobId :: "string option"
  msg_prospectId :: "string option"

text \<open>One place of a Places API response, and one page of them.\<close>

record raw_place =
  displayName_text :: "string option"
  formattedAddress :: "string option"
  websiteUri :: "string option"
  nationalPhoneNumber :: "string option"
  place_rating :: "rat option"
  userRatingCount :: "nat option"
  place_id :: string

record places_page =
  places :: "raw_place list option"
  nextPageToken :: "string option"

datatype places_request =
  TextSearch (textQuery: string) (center_lat: rat) (center_lng: rat) (radius: int) (pageSize: int)
| NextPage (pageToken: string) (nextPageSize: int)

text \<open>What \<^verbatim>\<open>fetch\<close> and \<^verbatim>\<open>res.json()\<close> give: an exception, a response that is not
  \<^verbatim>\<open>ok\<close> (status, status text, body text), or a parsed body.\<close>

datatype fetch_result =
  Fetch_throws js_error
| Http_not_ok nat string string
| Http_ok places_page

record geo_result =
  geo_lat :: rat
  geo_lng :: rat
  formatted_address :: string

datatype geocode_reply =
  Geo_throws js_error
| Geo_reply (geo_status: string) (geo_results: "geo_result list option")

datatype log_line = Log_processing "string option" JobStatus

text \<open>
  The state the code acts on: the three Firestore collections, the messages handed to
  SendGrid so far, the per-job line that \<^verbatim>\<open>processJob\<close> prints, the record of every
  write of a job's status (job id, status before, status written), the record of every
  call of \<^verbatim>\<open>sendEmailToProspect\<close> (the prospect it was given), and the logical clock.
\<close>

record world =
  jobs :: "Job list"
  prospects :: "Prospect list"
  unsubscribes :: "Unsubscribe list"
  outbox :: "Msg list"
  console :: "log_line list"
  status_log :: "(string \<times> JobStatus \<times> JobStatus) list"
  sender_calls :: "Prospect list"
  clock :: nat

text \<open>
  Everything the code does not decide itself: whether the external call made at a given
  clock reading fails, the document ids Firestore generates, the platform's URL parser
  (\<^verbatim>\<open>new URL(s)\<close>: protocol and hostname, or nothing when it throws) and base64 codec,
  the replies of SendGrid, of the geocoder and of the Places API, and the process
  environment.
\<close>

record env =
  store_fails :: "nat \<Rightarrow> bool"
  new_doc_id :: "nat \<Rightarrow> nat \<Rightarrow> string"
  url_parse :: "string \<Rightarrow> (string \<times> string) option"
  base64_encode :: "string \<Rightarrow> string"
  base64_decode :: "string \<Rightarrow> string"
  sendgrid_send :: "nat \<Rightarrow> Msg \<Rightarrow> js_error + string"
  geocode_fetch :: "nat \<Rightarrow> string \<Rightarrow> geocode_reply"
  places_fetch :: "nat \<Rightarrow> places_request \<Rightarrow> fetch_result"
  NODE_ENV :: "string option"
  CRON_SECRET :: "string option"
  DEBUG_API_KEY :: "string option"
  GOOGLE_PLACES_API_KEY :: "string option"
  NEXT_PUBLIC_BASE_URL :: "string option"
  DEFAULT_USER_NAME :: "string option"
  DEFAULT_USER_COMPANY :: "string option"

subsection \<open>Asynchronous code: state and exceptions\<close>

type_synonym 'a io = "world \<Rightarrow> (js_error + 'a) \<times> world"

definition io_return :: "'a \<Rightarrow> 'a io" where
  "io_return a w = (Inr a, w)"

definition io_throw :: "js_error \<Rightarrow> 'a io" where
  "io_throw e w = (Inl e, w)"

definition io_bind :: "'a io \<Rightarrow> ('a \<Rightarrow> 'b io) \<Rightarrow> 'b io" where
  "io_bind m f w = (case m w of (Inl e, w') \<Rightarrow> (Inl e, w') | (Inr a, w') \<Rightarrow> f a w')"

text \<open>\<^verbatim>\<open>try { m } catch (e) { h(e) }\<close>.\<close>

definition io_catch :: "'a io \<Rightarrow> (js_error \<Rightarrow> 'a io) \<Rightarrow> 'a io" where
  "io_catch m h w = (case m w of (Inl e, w') \<Rightarrow> h e w' | (Inr a, w') \<Rightarrow> (Inr a, w'))"

text \<open>\<^verbatim>\<open>Promise.all([m, n])\<close>: both calls are issued; the first rejection wins.\<close>

definition io_all2 :: "'a io \<Rightarrow> 'b io \<Rightarrow> ('a \<times> 'b) io" where
  "io_all2 m n w =
     (case m w of (ra, w1) \<Rightarrow>
       (case n w1 of (rb, w2) \<Rightarrow>
         (case ra of Inl e \<Rightarrow> (Inl e, w2)
          | Inr a \<Rightarrow> (case rb of Inl e \<Rightarrow> (Inl e, w2) | Inr b \<Rightarrow> (Inr (a, b), w2)))))"

text \<open>\<^verbatim>\<open>for (const x of xs) { await f(x) }\<close>, threading an accumulator.\<close>

fun io_fold :: "('a \<Rightarrow> 'b \<Rightarrow> 'b io) \<Rightarrow> 'a list \<Rightarrow> 'b \<Rightarrow> 'b io" where
  "io_fold f [] acc = io_return acc"
| "io_fold f (x # xs) acc = io_bind (f x acc) (\<lambda>acc'. io_fold f xs acc')"

text \<open>A sequential map: \<^verbatim>\<open>Promise.all(xs.map(f))\<close> for an \<open>f\<close> that only reads.\<close>

fun io_map :: "('a \<Rightarrow> 'b io) \<Rightarrow> 'a list \<Rightarrow> 'b list io" where
  "io_map f [] = io_return []"
| "io_map f (x # xs) = io_bind (f x) (\<lambda>y. io_bind (io_map f xs) (\<lambda>ys. io_return (y # ys)))"

definition advance :: "world \<Rightarrow> world" where
  "advance w = w\<lparr>clock := Suc (clock w)\<rparr>"

text \<open>
  A call to the document store. It advances the clock; it fails when the environment
  says the call at this clock reading fails, or when the operation itself does (an
  update of a document that does not exist), and a failed call writes nothing.
\<close>

definition store_call :: "env \<Rightarrow> (world \<Rightarrow> js_error + 'a \<times> world) \<Rightarrow> 'a io" where
  "store_call E f w =
     (if store_fails E (clock w) then (Inl store_unavailable, advance w)
      else (case f (advance w) of
              Inl e \<Rightarrow> (Inl e, advance w)
            | Inr (a, w') \<Rightarrow> (Inr a, w')))"

definition store_read :: "env \<Rightarrow> (world \<Rightarrow> 'a) \<Rightarrow> 'a io" where
  "store_read E f = store_call E (\<lambda>w. Inr (f w, w))"

text \<open>A call to another external service: the reply is the environment's, at this clock
  reading.\<close>

definition provider_call :: "(nat \<Rightarrow> 'a) \<Rightarrow> 'a io" where
  "provider_call f w = (Inr (f (clock w)), advance w)"

text \<open>\<^verbatim>\<open>x || d\<close> on an optional string: absent and empty are falsy.\<close>

definition or_else :: "string option \<Rightarrow> string \<Rightarrow> string" where
  "or_else x d = (case x of None \<Rightarrow> d | Some s \<Rightarrow> if s = [] then d else s)"

definition truthy :: "string option \<Rightarrow> bool" where
  "truthy x = (case x of None \<Rightarrow> False | Some s \<Rightarrow> s \<noteq> [])"

text \<open>An optional string inside a template string: \<^verbatim>\<open>undefined\<close> is printed as such.\<close>

definition shown :: "string option \<Rightarrow> string" where
  "shown x = (case x of None \<Rightarrow> ''undefined'' | Some s \<Rightarrow> s)"

subsection \<open>Typed Firestore helpers (\<^verbatim>\<open>lib/firebase/firestore.ts\<close>)\<close>

text \<open>
  The helpers take their ids as strings. A caller that passes \<^verbatim>\<open>job.id\<close> or
  \<^verbatim>\<open>prospect.id\<close> passes \<^verbatim>\<open>undefined\<close> when the data has no such field; then
  \<^verbatim>\<open>doc(undefined)\<close> and \<^verbatim>\<open>where('jobId', '==', undefined)\<close> throw in the client, before
  any request: \<open>with_id i f\<close> is the call \<open>f\<close> with the id \<open>i\<close>.
\<close>

definition with_id :: "string option \<Rightarrow> (string \<Rightarrow> 'a io) \<Rightarrow> 'a io" where
  "with_id i f = (case i of None \<Rightarrow> io_throw invalid_argument | Some s \<Rightarrow> f s)"

text \<open>\<^verbatim>\<open>createJob\<close>: the document gets a generated id; its data are the fields given and
  the two timestamps, with no \<^verbatim>\<open>id\<close> field.\<close>

definition createJob :: "env \<Rightarrow> Job \<Rightarrow> string io" where
  "createJob E data = store_call E (\<lambda>w.
     let new_id = new_doc_id E (clock w) 0 in
     Inr (new_id, w\<lparr>jobs := jobs w @
            [data\<lparr>job_id := new_id, job_has_id := False, job_createdAt := clock w,
                  job_updatedAt := clock w\<rparr>]\<rparr>))"

definition getJob :: "env \<Rightarrow> string \<Rightarrow> Job option io" where
  "getJob E jid = store_read E (\<lambda>w. find (\<lambda>j. job_id j = jid) (jobs w))"

text \<open>
  \<^verbatim>\<open>updateJobStatus(jobId, status)\<close>. The optional third argument (a partial
  \<^verbatim>\<open>stats\<close> object) is passed by the PATCH endpoint only and is left out.
\<close>

definition updateJobStatus :: "env \<Rightarrow> string \<Rightarrow> JobStatus \<Rightarrow> unit io" where
  "updateJobStatus E jid s = store_call E (\<lambda>w.
     case find (\<lambda>j. job_id j = jid) (jobs w) of
       None \<Rightarrow> Inl store_not_found
     | Some old \<Rightarrow>
         Inr ((), w\<lparr>jobs := map (\<lambda>j. if job_id j = jid
                                     then j\<lparr>job_status := s, job_updatedAt := clock w\<rparr>
                                     else j) (jobs w),
                    status_log := status_log w @ [(jid, job_status old, s)]\<rparr>))"

datatype StatField = F_found | F_withWebsite | F_withEmail | F_sent | F_bounced | F_unsubscribed

fun increment :: "StatField \<Rightarrow> nat \<Rightarrow> Stats \<Rightarrow> Stats" where
  "increment F_found n s = s\<lparr>found := found s + n\<rparr>"
| "increment F_withWebsite n s = s\<lparr>withWebsite := withWebsite s + n\<rparr>"
| "increment F_withEmail n s = s\<lparr>withEmail := withEmail s + n\<rparr>"
| "increment F_sent n s = s\<lparr>sent := sent s + n\<rparr>"
| "increment F_bounced n s = s\<lparr>bounced := bounced s + n\<rparr>"
| "increment F_unsubscribed n s = s\<lparr>unsubscribed := unsubscribed s + n\<rparr>"

definition incrementJobStat :: "env \<Rightarrow> string \<Rightarrow> StatField \<Rightarrow> nat \<Rightarrow> unit io" where
  "incrementJobStat E jid statField amount = store_call E (\<lambda>w.
     case find (\<lambda>j. job_id j = jid) (jobs w) of
       None \<Rightarrow> Inl store_not_found
     | Some old \<Rightarrow>
         Inr ((), w\<lparr>jobs := map (\<lambda>j. if job_id j = jid
                                     then j\<lparr>stats := increment statField amount (stats j),
                                            job_updatedAt := clock w\<rparr>
                                     else j) (jobs w)\<rparr>))"

text \<open>
  \<^verbatim>\<open>batchCreateProspects\<close>: one atomic batch. \<^verbatim>\<open>batch.set\<close> is given the properties of the
  prospect, the job's id, the status \<^verbatim>\<open>found\<close> and the timestamps, and refuses an object
  with a property that is \<^verbatim>\<open>undefined\<close>: the Firestore client is not set to ignore such
  properties. The objects of \<^verbatim>\<open>getProspectsFromPlaces\<close> write every property out, so an
  undefined one is there as \<^verbatim>\<open>undefined\<close>. A refused object ends the call before the
  batch is committed. A document that is written gets a generated id and no \<^verbatim>\<open>id\<close> field.
\<close>

definition has_undefined :: "ProspectData \<Rightarrow> bool" where
  "has_undefined p =
     (pd_website p = None \<or> pd_phone p = None \<or> pd_rating p = None \<or>
      pd_reviewCount p = None \<or> pd_discoveredEmail p = None \<or>
      pd_sendGridMessageId p = None \<or> pd_sentAt p = None \<or> pd_bouncedAt p = None \<or>
      pd_bounceReason p = None \<or> pd_unsubscribedAt p = None)"

definition stored_prospect :: "string \<Rightarrow> string \<Rightarrow> nat \<Rightarrow> ProspectData \<Rightarrow> Prospect" where
  "stored_prospect new_id jid now p =
     \<lparr>prospect_id = new_id, prospect_has_id = False, jobId = jid, prospect_status = Found,
      prospect_createdAt = now, prospect_updatedAt = now,
      name = pd_name p, address = pd_address p, website = pd_website p, phone = pd_phone p,
      rating = pd_rating p, reviewCount = pd_reviewCount p, placeId = pd_placeId p,
      discoveredEmail = pd_discoveredEmail p, emailSource = pd_emailSource p,
      sendGridMessageId = pd_sendGridMessageId p, sentAt = pd_sentAt p,
      bouncedAt = pd_bouncedAt p, bounceReason = pd_bounceReason p,
      unsubscribedAt = pd_unsubscribedAt p\<rparr>"

definition batchCreateProspects :: "env \<Rightarrow> string option \<Rightarrow> ProspectData list \<Rightarrow> unit io" where
  "batchCreateProspects E jobId_arg ps =
     (if ps \<noteq> [] \<and> (jobId_arg = None \<or> list_ex has_undefined ps)
      then io_throw invalid_argument
      else store_call E (\<lambda>w.
        Inr ((), w\<lparr>prospects := prospects w @
               (case jobId_arg of
                  None \<Rightarrow> []
                | Some jid \<Rightarrow>
                    map (\<lambda>(k, p). stored_prospect (new_doc_id E (clock w) k) jid (clock w) p)
                      (zip [0..<length ps] ps))\<rparr>)))"

text \<open>\<^verbatim>\<open>query.limit(n)\<close> is applied only when \<^verbatim>\<open>options.limit\<close> is truthy.\<close>

definition apply_limit :: "nat option \<Rightarrow> 'a list \<Rightarrow> 'a list" where
  "apply_limit limit_opt xs = (case limit_opt of None \<Rightarrow> xs | Some n \<Rightarrow> if n = 0 then xs else take n xs)"

text \<open>
  \<^verbatim>\<open>getProspectsForJob\<close>: the filtered, limited query, and beside it the count of all
  prospects of the job, whatever their status, returned as \<^verbatim>\<open>total\<close>.
\<close>

definition getProspectsForJob ::
  "env \<Rightarrow> string \<Rightarrow> ProspectStatus option \<Rightarrow> nat option \<Rightarrow> (Prospect list \<times> nat) io" where
  "getProspectsForJob E jid status_opt limit_opt =
     io_all2
       (store_read E (\<lambda>w. apply_limit limit_opt
          (filter (\<lambda>p. jobId p = jid \<and>
                        (case status_opt of None \<Rightarrow> True | Some s \<Rightarrow> prospect_status p = s))
             (prospects w))))
       (store_read E (\<lambda>w. length (filter (\<lambda>p. jobId p = jid) (prospects w))))"

text \<open>An update of one prospect document; it fails when the document does not exist.\<close>

definition update_prospect :: "env \<Rightarrow> string \<Rightarrow> (nat \<Rightarrow> Prospect \<Rightarrow> Prospect) \<Rightarrow> unit io" where
  "update_prospect E pid f = store_call E (\<lambda>w.
     case find (\<lambda>p. prospect_id p = pid) (prospects w) of
       None \<Rightarrow> Inl store_not_found
     | Some old \<Rightarrow>
         Inr ((), w\<lparr>prospects := map (\<lambda>p. if prospect_id p = pid then f (clock w) p else p)
                                    (prospects w)\<rparr>))"

text \<open>\<^verbatim>\<open>updateProspectStatus\<close>: the email fields are written only when
  \<^verbatim>\<open>emailData.discoveredEmail\<close> is truthy (present and not empty).\<close>

definition updateProspectStatus ::
  "env \<Rightarrow> string \<Rightarrow> ProspectStatus \<Rightarrow> string option \<Rightarrow> EmailSource option \<Rightarrow> unit io" where
  "updateProspectStatus E pid s email src =
     update_prospect E pid (\<lambda>now p.
       let p1 = p\<lparr>prospect_status := s, prospect_updatedAt := now\<rparr> in
       (case email of
          None \<Rightarrow> p1
        | Some e \<Rightarrow> if e = [] then p1
                    else p1\<lparr>discoveredEmail := Some e,
                            emailSource := (case src of None \<Rightarrow> Inferred | Some x \<Rightarrow> x)\<rparr>))"

definition getProspectsForSending :: "env \<Rightarrow> string \<Rightarrow> nat \<Rightarrow> Prospect list io" where
  "getProspectsForSending E jid batchSize =
     store_read E (\<lambda>w. take batchSize
       (filter (\<lambda>p. jobId p = jid \<and> prospect_status p = Email_found) (prospects w)))"

text \<open>
  \<^verbatim>\<open>isUnsubscribed\<close>: \<^verbatim>\<open>email.split('@')[1].toLowerCase()\<close> throws a TypeError when the
  address has no \<^verbatim>\<open>@\<close>; then one query by email and one by domain, each limited to one
  document.
\<close>

definition isUnsubscribed :: "env \<Rightarrow> string \<Rightarrow> bool io" where
  "isUnsubscribed E email =
     (case at_index (split_on CHR ''@'' email) 1 of
        None \<Rightarrow> io_throw TypeError
      | Some d \<Rightarrow>
          let domain = toLowerCase d in
          io_bind
            (io_all2
              (store_read E (\<lambda>w. take 1
                 (filter (\<lambda>u. unsub_email u = toLowerCase email) (unsubscribes w))))
              (store_read E (\<lambda>w. take 1
                 (filter (\<lambda>u. unsub_domain u = domain) (unsubscribes w)))))
            (\<lambda>(emailSnap, domainSnap). io_return (emailSnap \<noteq> [] \<or> domainSnap \<noteq> [])))"

text \<open>
  \<^verbatim>\<open>addUnsubscribe(email, jobId?)\<close>: the record is written with the property \<^verbatim>\<open>jobId\<close>
  whatever its value, so a call without a job id hands \<^verbatim>\<open>jobId: undefined\<close> to \<^verbatim>\<open>add\<close>,
  which refuses it.
\<close>

definition addUnsubscribe :: "env \<Rightarrow> string \<Rightarrow> string option \<Rightarrow> unit io" where
  "addUnsubscribe E email jobId_arg =
     (case at_index (split_on CHR ''@'' email) 1 of
        None \<Rightarrow> io_throw TypeError
      | Some d \<Rightarrow>
          let domain = toLowerCase d in
          (case jobId_arg of
             None \<Rightarrow> io_throw invalid_argument
           | Some jid \<Rightarrow>
               store_call E (\<lambda>w.
                 Inr ((), w\<lparr>unsubscribes := unsubscribes w @
                        [\<lparr>unsub_id = [], unsub_email = toLowerCase email,
                          unsub_domain = domain, unsub_at = clock w,
                          unsub_jobId = Some jid\<rparr>]\<rparr>))))"

text \<open>\<^verbatim>\<open>getAllJobs(limit = 50)\<close>: newest first, at most \<open>limit\<close> of them.\<close>

definition getAllJobs :: "env \<Rightarrow> nat \<Rightarrow> Job list io" where
  "getAllJobs E limit_n = store_read E (\<lambda>w. take limit_n (rev (sort_key job_createdAt (jobs w))))"

subsection \<open>Job creation (\<^verbatim>\<open>app/api/jobs/route.ts\<close>)\<close>

datatype reply =
  R_error string
| R_job_created string JobStatus
| R_cron nat
| R_send string nat nat "string list"
| R_text string
| R_confirmation string

datatype response = Response (status_code: nat) (body: reply)

text \<open>The request body as \<^verbatim>\<open>CreateJobRequest\<close> types it, every field possibly absent.\<close>

record CreateJobRequest =
  req_niche :: "string option"
  req_targetZip :: "string option"
  req_targetCountry :: "string option"
  req_radiusKm :: "js_number option"
  req_maxBusinesses :: "js_number option"

text \<open>\<^verbatim>\<open>!x\<close> on a number: zero and NaN are falsy.\<close>

definition falsy_number :: "js_number \<Rightarrow> bool" where
  "falsy_number x = (x = NaN \<or> x = Fin 0)"

definition INTERNAL_USER_ID :: string where
  "INTERNAL_USER_ID = ''system_user_v1''"

definition zero_stats :: Stats where
  "zero_stats = \<lparr>found = 0, withWebsite = 0, withEmail = 0, sent = 0, bounced = 0, unsubscribed = 0\<rparr>"

text \<open>\<^verbatim>\<open>POST /api/jobs\<close>; the argument is \<open>None\<close> when \<^verbatim>\<open>request.json()\<close> throws.\<close>

definition POST_jobs :: "env \<Rightarrow> CreateJobRequest option \<Rightarrow> response io" where
  "POST_jobs E request_json =
     io_catch
       (case request_json of
          None \<Rightarrow> io_throw (Err None None (Some ''SyntaxError''))
        | Some b \<Rightarrow>
            let country = (case req_targetCountry b of None \<Rightarrow> ''US'' | Some c \<Rightarrow> c) in
            (case (req_niche b, req_targetZip b, req_radiusKm b, req_maxBusinesses b) of
               (Some n, Some z, Some r, Some m) \<Rightarrow>
                 if n = [] \<or> z = [] \<or> falsy_number r \<or> falsy_number m
                 then io_return (Response 400 (R_error ''Missing required fields''))
                 else (case sanitizeNiche n of
                    None \<Rightarrow> io_return (Response 400 (R_error ''Invalid niche''))
                  | Some sanitizedNiche \<Rightarrow>
                      if sanitizedNiche = [] then io_return (Response 400 (R_error ''Invalid niche''))
                      else (case sanitizeLocationInput z of
                         None \<Rightarrow> io_return (Response 400 (R_error ''Invalid targetZip''))
                       | Some sanitizedZip \<Rightarrow>
                           if sanitizedZip = []
                           then io_return (Response 400 (R_error ''Invalid targetZip''))
                           else io_bind
                             (createJob E
                                \<lparr>job_id = [], job_has_id = False,
                                 userId = INTERNAL_USER_ID, job_status = Draft,
                                 job_createdAt = 0, job_updatedAt = 0,
                                 niche = sanitizedNiche, targetZip = sanitizedZip,
                                 targetCountry = sanitizeCountryCode country,
                                 radiusKm = sanitizeRadius r,
                                 maxBusinesses = sanitizeMaxBusinesses m,
                                 stats = zero_stats\<rparr>)
                             (\<lambda>new_id. io_return (Response 201 (R_job_created new_id Draft)))))
             | _ \<Rightarrow> io_return (Response 400 (R_error ''Missing required fields''))))
       (\<lambda>e. io_return (Response 500 (R_error ''Internal server error'')))"

subsection \<open>Email inference (\<^verbatim>\<open>lib/services/emailDiscovery\<close>)\<close>

text \<open>The six patterns, in priority order: each is a local part and an at sign followed
  by the placeholder \<^verbatim>\<open>{domain}\<close>.\<close>

definition EMAIL_PATTERNS :: "string list" where
  "EMAIL_PATTERNS =
     map (\<lambda>local_part. local_part @ ''{domain}'')
       [''info@'', ''contact@'', ''hello@'', ''admin@'', ''support@'', ''business@'']"

text \<open>\<^verbatim>\<open>s.replace(/^www\./, '')\<close>.\<close>

definition strip_www :: "string \<Rightarrow> string" where
  "strip_www s = (if startsWith s ''www.'' then drop 4 s else s)"

definition extractDomain :: "env \<Rightarrow> string \<Rightarrow> string option" where
  "extractDomain E url =
     (if url = [] then None
      else let withProtocol = (if startsWith url ''http'' then url else ''https://'' @ url) in
        (case url_parse E withProtocol of
           None \<Rightarrow> None
         | Some (protocol, hostname) \<Rightarrow> Some (strip_www (toLowerCase hostname))))"

text \<open>
  \<^verbatim>\<open>pattern.replace('{domain}', domain)\<close> with a string pattern replaces the first
  occurrence, and reads the replacement as a template: \<^verbatim>\<open>$$\<close> is a dollar sign,
  \<^verbatim>\<open>$&\<close> the matched text, \<^verbatim>\<open>$`\<close> the text before the match and \<^verbatim>\<open>$'\<close> the text after
  it; every other character stands for itself.
\<close>

fun get_substitution :: "string \<Rightarrow> string \<Rightarrow> string \<Rightarrow> string \<Rightarrow> string" where
  "get_substitution matched before after [] = []"
| "get_substitution matched before after [c] = [c]"
| "get_substitution matched before after (c # d # rest) =
     (if c = CHR ''$'' \<and> d = CHR ''$'' then CHR ''$'' # get_substitution matched before after rest
      else if c = CHR ''$'' \<and> d = CHR ''&'' then matched @ get_substitution matched before after rest
      else if c = CHR ''$'' \<and> d = CHR 0x60 then before @ get_substitution matched before after rest
      else if c = CHR ''$'' \<and> d = CHR 0x27 then after @ get_substitution matched before after rest
      else c # get_substitution matched before after (d # rest))"

fun find_sub :: "string \<Rightarrow> string \<Rightarrow> (string \<times> string) option" where
  "find_sub pat [] = (if pat = [] then Some ([], []) else None)"
| "find_sub pat (c # cs) =
     (if startsWith (c # cs) pat then Some ([], drop (length pat) (c # cs))
      else map_option (\<lambda>(b, a). (c # b, a)) (find_sub pat cs))"

definition js_replace :: "string \<Rightarrow> string \<Rightarrow> string \<Rightarrow> string" where
  "js_replace s pat repl =
     (case find_sub pat s of
        None \<Rightarrow> s
      | Some (b, a) \<Rightarrow> b @ get_substitution pat b a repl @ a)"

definition generateInferredEmails :: "string \<Rightarrow> string list" where
  "generateInferredEmails domain = map (\<lambda>pattern. js_replace pattern ''{domain}'' domain) EMAIL_PATTERNS"

text \<open>The loop over the candidates: the first one that is not unsubscribed is returned.\<close>

fun try_candidates :: "env \<Rightarrow> string list \<Rightarrow> (string option \<times> ProspectStatus) io" where
  "try_candidates E [] = io_return (None, No_email)"
| "try_candidates E (email # rest) =
     io_bind (isUnsubscribed E email) (\<lambda>unsub.
       if \<not> unsub then io_return (Some email, Email_found)
       else try_candidates E rest)"

definition discoverEmailForProspect ::
  "env \<Rightarrow> Prospect \<Rightarrow> (string option \<times> ProspectStatus) io" where
  "discoverEmailForProspect E prospect =
     (if \<not> truthy (website prospect) then io_return (None, No_website)
      else (case extractDomain E (or_else (website prospect) []) of
         None \<Rightarrow> io_return (None, No_email)
       | Some domain \<Rightarrow>
           if domain = [] then io_return (None, No_email)
           else try_candidates E (generateInferredEmails domain)))"

text \<open>
  \<^verbatim>\<open>batchDiscoverEmails\<close> runs the discoveries under \<^verbatim>\<open>Promise.all\<close>. They only read the
  store, so their interleaving is not observable and they are run one after the other.
\<close>

definition batchDiscoverEmails ::
  "env \<Rightarrow> Prospect list \<Rightarrow> (string option \<times> string option \<times> ProspectStatus) list io" where
  "batchDiscoverEmails E ps =
     io_map (\<lambda>prospect.
       io_bind (discoverEmailForProspect E prospect) (\<lambda>(email, st).
         io_return (prospect_dot_id prospect, email, st))) ps"

subsection \<open>Business finder (\<^verbatim>\<open>lib/services/places.ts\<close>)\<close>

record PlacesSearchParams =
  sp_niche :: string
  sp_targetZip :: string
  sp_targetCountry :: string
  sp_radiusKm :: int
  sp_maxBusinesses :: int

record PlacesBusiness =
  b_name :: string
  b_address :: string
  b_website :: "string option"
  b_phone :: "string option"
  b_rating :: "rat option"
  b_reviewCount :: "nat option"
  b_placeId :: string

definition js_error_of :: "string \<Rightarrow> js_error" where
  "js_error_of msg = Err None None (Some msg)"

definition geocodeLocation :: "env \<Rightarrow> string \<Rightarrow> string \<Rightarrow> geo_result io" where
  "geocodeLocation E zipOrCity country =
     (if \<not> truthy (GOOGLE_PLACES_API_KEY E)
      then io_throw (js_error_of ''GOOGLE_PLACES_API_KEY is not configured'')
      else let query = zipOrCity @ '', '' @ country in
        io_bind (provider_call (\<lambda>now. geocode_fetch E now query)) (\<lambda>reply.
          case reply of
            Geo_throws e \<Rightarrow> io_throw e
          | Geo_reply st results \<Rightarrow>
              if st \<noteq> ''OK'' \<or> (case results of None \<Rightarrow> True | Some rs \<Rightarrow> rs = [])
              then io_throw (js_error_of (''Geocoding failed: '' @ st))
              else (case results of
                      Some (r # _) \<Rightarrow> io_return r
                    | _ \<Rightarrow> io_throw TypeError)))"

definition radiusKmToMeters :: "int \<Rightarrow> int" where
  "radiusKmToMeters r = min (r * 1000) 50000"

text \<open>The version of \<^verbatim>\<open>cleanWebsiteUrl\<close> in \<^verbatim>\<open>places.ts\<close>.\<close>

definition cleanWebsiteUrl :: "env \<Rightarrow> string \<Rightarrow> string option" where
  "cleanWebsiteUrl E url =
     (if url = [] then None
      else let withProtocol = (if startsWith url ''http'' then url else ''https://'' @ url) in
        (case url_parse E withProtocol of
           None \<Rightarrow> None
         | Some (protocol, hostname) \<Rightarrow> Some (protocol @ ''//'' @ hostname)))"

definition nonempty :: "string option \<Rightarrow> string option" where
  "nonempty x = (if truthy x then x else None)"

definition to_business :: "env \<Rightarrow> raw_place \<Rightarrow> PlacesBusiness" where
  "to_business E place =
     \<lparr>b_name = or_else (displayName_text place) ''Unknown Business'',
      b_address = or_else (formattedAddress place) [],
      b_website = (if truthy (websiteUri place)
                   then cleanWebsiteUrl E (or_else (websiteUri place) []) else None),
      b_phone = nonempty (nationalPhoneNumber place),
      b_rating = (if place_rating place = Some 0 then None else place_rating place),
      b_reviewCount = (if userRatingCount place = Some 0 then None else userRatingCount place),
      b_placeId = place_id place\<rparr>"

text \<open>\<^verbatim>\<open>xs.slice(0, n)\<close>: a negative \<open>n\<close> counts from the end.\<close>

definition slice0 :: "'a list \<Rightarrow> int \<Rightarrow> 'a list" where
  "slice0 xs n = (if n < 0 then take (nat (int (length xs) + n)) xs else take (nat n) xs)"

definition places_api_error :: "nat \<Rightarrow> string \<Rightarrow> string \<Rightarrow> js_error" where
  "places_api_error st statusText errorText =
     js_error_of (''Places API error: '' @ statusText @ '' - '' @ errorText)"

text \<open>\<^verbatim>\<open>fetchNextPage\<close>: one request for the page behind a token. A response that is not
  \<^verbatim>\<open>ok\<close>, or has no \<^verbatim>\<open>places\<close> array, gives no businesses; a throwing \<^verbatim>\<open>fetch\<close> is not
  caught. The token of the page it receives is not read.\<close>

definition fetchNextPage :: "env \<Rightarrow> string \<Rightarrow> int \<Rightarrow> PlacesBusiness list io" where
  "fetchNextPage E token maxB =
     io_bind (provider_call (\<lambda>now. places_fetch E now (NextPage token (min maxB 20)))) (\<lambda>res.
       case res of
         Fetch_throws e \<Rightarrow> io_throw e
       | Http_not_ok st statusText errorText \<Rightarrow> io_return []
       | Http_ok data \<Rightarrow>
           (case places data of
              None \<Rightarrow> io_return []
            | Some ps \<Rightarrow> io_return (map (to_business E) ps)))"

definition searchBusinesses :: "env \<Rightarrow> PlacesSearchParams \<Rightarrow> PlacesBusiness list io" where
  "searchBusinesses E params =
     io_bind (geocodeLocation E (sp_targetZip params) (sp_targetCountry params)) (\<lambda>location.
       if \<not> truthy (GOOGLE_PLACES_API_KEY E)
       then io_throw (js_error_of ''GOOGLE_PLACES_API_KEY is not configured'')
       else
         let searchText = sp_niche params @ '' near '' @ sp_targetZip params @ '', '' @
                          sp_targetCountry params;
             request = TextSearch searchText (geo_lat location) (geo_lng location)
                         (radiusKmToMeters (sp_radiusKm params))
                         (min (sp_maxBusinesses params) 20)
         in io_bind (provider_call (\<lambda>now. places_fetch E now request)) (\<lambda>res.
           case res of
             Fetch_throws e \<Rightarrow> io_throw e
           | Http_not_ok st statusText errorText \<Rightarrow>
               io_throw (places_api_error st statusText errorText)
           | Http_ok data \<Rightarrow>
               (case places data of
                  None \<Rightarrow> io_return []
                | Some ps \<Rightarrow>
                    let businesses = map (to_business E) ps in
                    if truthy (nextPageToken data) \<and>
                       int (length businesses) < sp_maxBusinesses params
                    then
                      let remaining = sp_maxBusinesses params - int (length businesses) in
                      io_bind (fetchNextPage E (or_else (nextPageToken data) []) remaining)
                        (\<lambda>nextPageResults.
                          io_return (slice0 (businesses @ nextPageResults)
                                       (sp_maxBusinesses params)))
                    else io_return (slice0 businesses (sp_maxBusinesses params)))))"

definition getProspectsFromPlaces ::
  "env \<Rightarrow> string option \<Rightarrow> PlacesSearchParams \<Rightarrow> ProspectData list io" where
  "getProspectsFromPlaces E jobId_arg params =
     io_bind (searchBusinesses E params) (\<lambda>businesses.
       io_return (map (\<lambda>business.
         \<lparr>pd_jobId = jobId_arg, pd_placeId = b_placeId business,
          pd_name = b_name business, pd_address = b_address business,
          pd_website = b_website business, pd_phone = b_phone business,
          pd_rating = b_rating business, pd_reviewCount = b_reviewCount business,
          pd_discoveredEmail = None, pd_emailSource = Inferred,
          pd_sendGridMessageId = None, pd_sentAt = None, pd_bouncedAt = None,
          pd_bounceReason = None, pd_unsubscribedAt = None\<rparr>) businesses))"

subsection \<open>Outreach sender (\<^verbatim>\<open>lib/services/sendgrid.ts\<close>)\<close>

record SendParams =
  param_prospect :: Prospect
  param_userName :: string
  param_userCompany :: "string option"
  param_userService :: "string option"
  param_jobId :: "string option"

datatype send_outcome = Send_ok string | Send_failed string

definition generateUnsubscribeUrl :: "env \<Rightarrow> string option \<Rightarrow> string option \<Rightarrow> string" where
  "generateUnsubscribeUrl E prospectId email =
     (let baseUrl = or_else (NEXT_PUBLIC_BASE_URL E) ''http://localhost:3000'';
          token = base64_encode E (shown prospectId @ '':'' @ shown email)
      in baseUrl @ ''/api/unsubscribe?token='' @ token)"

definition build_subject :: "SendParams \<Rightarrow> string" where
  "build_subject params = ''Quick question about '' @ name (param_prospect params)"

text \<open>\<^verbatim>\<open>sgMail.send(msg)\<close>: the message is handed to the provider, whose reply is a message
  id or an exception.\<close>

definition sgMail_send :: "env \<Rightarrow> Msg \<Rightarrow> string io" where
  "sgMail_send E msg w =
     (case sendgrid_send E (clock w) msg of
        Inl e \<Rightarrow> (Inl e, advance (w\<lparr>outbox := outbox w @ [msg]\<rparr>))
      | Inr messageId \<Rightarrow> (Inr messageId, advance (w\<lparr>outbox := outbox w @ [msg]\<rparr>)))"

definition build_msg :: "env \<Rightarrow> SendParams \<Rightarrow> Msg" where
  "build_msg E params =
     \<lparr>msg_to = discoveredEmail (param_prospect params),
      msg_subject = build_subject params,
      msg_listUnsubscribe =
        generateUnsubscribeUrl E (prospect_dot_id (param_prospect params))
          (discoveredEmail (param_prospect params)),
      msg_jobId = param_jobId params,
      msg_prospectId = prospect_dot_id (param_prospect params)\<rparr>"

text \<open>
  \<^verbatim>\<open>sendEmailToProspect\<close>. Its first statement reads \<^verbatim>\<open>prospect.discoveredEmail\<close>. The
  function binds \<^verbatim>\<open>params\<close> and nothing named \<^verbatim>\<open>prospect\<close>, and neither does the module:
  the read throws a ReferenceError, which in an async function is a rejected promise.
  \<open>unbound_identifier\<close> is that read; the rest of the function follows as it is written,
  with \<^verbatim>\<open>params.prospect\<close> where the code says so. \<open>enter_sender\<close> records the call.
\<close>

definition unbound_identifier :: "'a io" where
  "unbound_identifier = io_throw ReferenceError"

definition enter_sender :: "SendParams \<Rightarrow> unit io" where
  "enter_sender params w =
     (Inr (), w\<lparr>sender_calls := sender_calls w @ [param_prospect params]\<rparr>)"

definition sendEmailToProspect :: "env \<Rightarrow> SendParams \<Rightarrow> send_outcome io" where
  "sendEmailToProspect E params =
     io_bind (enter_sender params) (\<lambda>_.
     io_bind (unbound_identifier :: Prospect io) (\<lambda>prospect.
       if \<not> truthy (discoveredEmail prospect)
       then io_return (Send_failed ''No email address available for this prospect'')
       else
         let msg = build_msg E params;
             pid = prospect_dot_id (param_prospect params);
             email = discoveredEmail (param_prospect params)
         in io_catch
           (io_bind (sgMail_send E msg) (\<lambda>messageId.
            io_bind (with_id pid (\<lambda>i.
                       updateProspectStatus E i Sent email (Some Inferred))) (\<lambda>_.
            io_bind (with_id pid (\<lambda>i. update_prospect E i (\<lambda>now p.
                       p\<lparr>sendGridMessageId := Some messageId, sentAt := Some now,
                         prospect_updatedAt := now\<rparr>))) (\<lambda>_.
            io_return (Send_ok messageId)))))
           (\<lambda>error.
              let isPermanentBounce =
                    (err_statusCode error = Some 400 \<or> err_code error = Some 400) in
              io_bind
                (if isPermanentBounce
                 then io_bind (with_id pid (\<lambda>i.
                                 updateProspectStatus E i Bounced email (Some Inferred))) (\<lambda>_.
                      with_id pid (\<lambda>i.
                        case err_message error of
                          None \<Rightarrow> io_throw invalid_argument
                        | Some reason \<Rightarrow>
                            update_prospect E i (\<lambda>now p.
                              p\<lparr>bouncedAt := Some now, bounceReason := Some (take 500 reason),
                                prospect_updatedAt := now\<rparr>)))
                 else io_return ())
                (\<lambda>_. io_return
                       (Send_failed (or_else (err_message error) ''Unknown error''))))))"

record BatchResult =
  res_sent :: nat
  res_failed :: nat
  res_errors :: "string list"

record UserConfig =
  cfg_userName :: string
  cfg_userCompany :: "string option"
  cfg_userService :: "string option"

text \<open>\<^verbatim>\<open>batchSendEmails\<close>: one send after the other. The 100 ms pause between two sends
  is not modelled.\<close>

definition batchSendEmails ::
  "env \<Rightarrow> Prospect list \<Rightarrow> string option \<Rightarrow> UserConfig \<Rightarrow> BatchResult io" where
  "batchSendEmails E ps jobId_arg userConfig =
     io_fold (\<lambda>prospect results.
       io_bind (sendEmailToProspect E
                  \<lparr>param_prospect = prospect, param_userName = cfg_userName userConfig,
                   param_userCompany = cfg_userCompany userConfig,
                   param_userService = cfg_userService userConfig,
                   param_jobId = jobId_arg\<rparr>)
         (\<lambda>result.
            case result of
              Send_ok messageId \<Rightarrow> io_return (results\<lparr>res_sent := res_sent results + 1\<rparr>)
            | Send_failed msg \<Rightarrow>
                io_return (results\<lparr>res_failed := res_failed results + 1,
                                   res_errors := res_errors results @
                                     [name prospect @ '': '' @ msg]\<rparr>)))
       ps \<lparr>res_sent = 0, res_failed = 0, res_errors = []\<rparr>"

subsection \<open>The scheduler tick (\<^verbatim>\<open>app/api/cron/process/route.ts\<close>)\<close>

definition EMAIL_DISCOVERY_BATCH_SIZE :: nat where
  "EMAIL_DISCOVERY_BATCH_SIZE = 50"

definition SENDING_BATCH_SIZE :: nat where
  "SENDING_BATCH_SIZE = 10"

definition console_log :: "log_line \<Rightarrow> unit io" where
  "console_log l w = (Inr (), w\<lparr>console := console w @ [l]\<rparr>)"

definition handleProspecting :: "env \<Rightarrow> Job \<Rightarrow> unit io" where
  "handleProspecting E job =
     io_bind (if job_status job = Draft
              then with_id (job_dot_id job) (\<lambda>jid. updateJobStatus E jid Prospecting)
              else io_return ()) (\<lambda>_.
       io_catch
         (io_bind (getProspectsFromPlaces E (job_dot_id job)
                     \<lparr>sp_niche = niche job, sp_targetZip = targetZip job,
                      sp_targetCountry = targetCountry job, sp_radiusKm = radiusKm job,
                      sp_maxBusinesses = maxBusinesses job\<rparr>) (\<lambda>prospectsData.
          io_bind (batchCreateProspects E (job_dot_id job) prospectsData) (\<lambda>_.
          io_bind (with_id (job_dot_id job) (\<lambda>jid.
                     incrementJobStat E jid F_found (length prospectsData))) (\<lambda>_.
          io_bind (with_id (job_dot_id job) (\<lambda>jid.
                     incrementJobStat E jid F_withWebsite
                       (length (filter (\<lambda>p. truthy (pd_website p)) prospectsData)))) (\<lambda>_.
          with_id (job_dot_id job) (\<lambda>jid. updateJobStatus E jid Discovering))))))
         (\<lambda>error. with_id (job_dot_id job) (\<lambda>jid. updateJobStatus E jid Failed)))"

text \<open>The loop of \<^verbatim>\<open>handleEmailDiscovery\<close> over the results: it counts the addresses and
  writes each prospect.\<close>

definition write_discovery ::
  "env \<Rightarrow> (string option \<times> string option \<times> ProspectStatus) \<Rightarrow> nat \<Rightarrow> nat io" where
  "write_discovery E result emailFoundCount =
     (case result of (prospectId, email, st) \<Rightarrow>
        let counted = (if truthy email then emailFoundCount + 1 else emailFoundCount) in
        io_bind (with_id prospectId (\<lambda>pid.
                   updateProspectStatus E pid st (nonempty email) (Some Inferred))) (\<lambda>_.
          io_return counted))"

definition handleEmailDiscovery :: "env \<Rightarrow> Job \<Rightarrow> unit io" where
  "handleEmailDiscovery E job =
     io_catch
       (io_bind (with_id (job_dot_id job) (\<lambda>jid.
                   getProspectsForJob E jid (Some Found) (Some EMAIL_DISCOVERY_BATCH_SIZE)))
          (\<lambda>(batch, total).
          if length batch = 0
          then with_id (job_dot_id job) (\<lambda>jid. updateJobStatus E jid Sending)
          else
            io_bind (batchDiscoverEmails E batch) (\<lambda>results.
            io_bind (io_fold (write_discovery E) results 0) (\<lambda>emailFoundCount.
            io_bind (with_id (job_dot_id job) (\<lambda>jid.
                       incrementJobStat E jid F_withEmail emailFoundCount)) (\<lambda>_.
              if length batch < EMAIL_DISCOVERY_BATCH_SIZE
              then io_bind (with_id (job_dot_id job) (\<lambda>jid.
                              getProspectsForJob E jid (Some Found) None))
                     (\<lambda>(remaining_prospects, remaining_total).
                        if remaining_total = 0
                        then with_id (job_dot_id job) (\<lambda>jid. updateJobStatus E jid Sending)
                        else io_return ())
              else io_return ())))))
       (\<lambda>error. with_id (job_dot_id job) (\<lambda>jid. updateJobStatus E jid Failed))"

definition handleSending :: "env \<Rightarrow> Job \<Rightarrow> unit io" where
  "handleSending E job =
     io_catch
       (io_bind (with_id (job_dot_id job) (\<lambda>jid.
                   getProspectsForSending E jid SENDING_BATCH_SIZE)) (\<lambda>batch.
          if length batch = 0
          then with_id (job_dot_id job) (\<lambda>jid. updateJobStatus E jid Completed)
          else
            io_bind (batchSendEmails E batch (job_dot_id job)
                       \<lparr>cfg_userName = or_else (DEFAULT_USER_NAME E) ''Your Name'',
                        cfg_userCompany = DEFAULT_USER_COMPANY E,
                        cfg_userService = Some (niche job)\<rparr>) (\<lambda>results.
            io_bind (with_id (job_dot_id job) (\<lambda>jid.
                       incrementJobStat E jid F_sent (res_sent results))) (\<lambda>_.
            with_id (job_dot_id job) (\<lambda>jid.
              incrementJobStat E jid F_bounced (res_failed results))))))
       (\<lambda>error. with_id (job_dot_id job) (\<lambda>jid. updateJobStatus E jid Failed))"

definition processJob :: "env \<Rightarrow> Job \<Rightarrow> unit io" where
  "processJob E job =
     io_bind (console_log (Log_processing (job_dot_id job) (job_status job))) (\<lambda>_.
       case job_status job of
         Draft \<Rightarrow> handleProspecting E job
       | Prospecting \<Rightarrow> handleProspecting E job
       | Discovering \<Rightarrow> handleEmailDiscovery E job
       | Sending \<Rightarrow> handleSending E job
       | Completed \<Rightarrow> io_return ()
       | Failed \<Rightarrow> io_return ())"

definition is_active :: "Job \<Rightarrow> bool" where
  "is_active job =
     (job_status job = Draft \<or> job_status job = Prospecting \<or>
      job_status job = Discovering \<or> job_status job = Sending)"

text \<open>The loop of the tick: an exception of \<^verbatim>\<open>processJob\<close> is caught and the job marked
  failed; an exception of that write leaves the loop.\<close>

fun process_jobs :: "env \<Rightarrow> Job list \<Rightarrow> unit io" where
  "process_jobs E [] = io_return ()"
| "process_jobs E (job # rest) =
     io_bind (io_catch (processJob E job)
                (\<lambda>error. with_id (job_dot_id job) (\<lambda>jid. updateJobStatus E jid Failed)))
       (\<lambda>_. process_jobs E rest)"

text \<open>\<^verbatim>\<open>GET /api/cron/process\<close>; the argument is the request's \<^verbatim>\<open>authorization\<close>
  header.\<close>

definition GET_cron :: "env \<Rightarrow> string option \<Rightarrow> response io" where
  "GET_cron E authHeader =
     (if NODE_ENV E = Some ''production'' \<and>
         authHeader \<noteq> Some (''Bearer '' @ (case CRON_SECRET E of None \<Rightarrow> ''undefined'' | Some s \<Rightarrow> s))
      then io_return (Response 401 (R_error ''Unauthorized''))
      else io_catch
        (io_bind (getAllJobs E 50) (\<lambda>all_jobs.
           let activeJobs = filter is_active all_jobs in
           io_bind (process_jobs E activeJobs) (\<lambda>_.
             io_return (Response 200 (R_cron (length activeJobs))))))
        (\<lambda>error. io_return (Response 500 (R_error ''Cron processing failed''))))"

subsection \<open>Manual send (\<^verbatim>\<open>POST /api/send\<close>)\<close>


subsection \<open>Unsubscribe link (\<^verbatim>\<open>GET /api/unsubscribe\<close>)\<close>

text \<open>\<^verbatim>\<open>decodeBase64Url\<close>: URL-safe characters back to the standard alphabet, padding to a
  multiple of four, then the platform's decoder.\<close>

definition decodeBase64Url :: "env \<Rightarrow> string \<Rightarrow> string" where
  "decodeBase64Url E token =
     (let base64 = map (\<lambda>c. if c = CHR ''-'' then CHR ''+'' else if c = CHR ''_'' then CHR ''/'' else c) token;
          padded = base64 @ replicate ((4 - length base64 mod 4) mod 4) CHR ''=''
      in base64_decode E padded)"

definition GET_unsubscribe :: "env \<Rightarrow> string option \<Rightarrow> response io" where
  "GET_unsubscribe E token_param =
     (if \<not> truthy token_param
      then io_return (Response 400 (R_text ''Invalid unsubscribe link: missing token''))
      else io_catch
        (let decoded = decodeBase64Url E (or_else token_param []);
             parts = split_on CHR '':'' decoded;
             prospectId = at_index parts 0;
             email = at_index parts 1
         in if \<not> truthy prospectId \<or> \<not> truthy email
            then io_return (Response 400 (R_text ''Invalid unsubscribe link: malformed token''))
            else
              let pid = or_else prospectId []; addr = or_else email [] in
              io_bind (store_read E (\<lambda>w. find (\<lambda>p. prospect_id p = pid) (prospects w)))
                (\<lambda>prospectDoc.
                   case prospectDoc of
                     None \<Rightarrow>
                       io_bind (addUnsubscribe E addr None) (\<lambda>_.
                         io_return (Response 200 (R_confirmation addr)))
                   | Some prospect \<Rightarrow>
                       if discoveredEmail prospect \<noteq> Some addr
                       then io_return (Response 400
                              (R_text ''Invalid unsubscribe link: email mismatch''))
                       else
                         io_bind (addUnsubscribe E addr (Some (jobId prospect))) (\<lambda>_.
                         io_bind (update_prospect E pid (\<lambda>now p.
                                    p\<lparr>prospect_status := Unsubscribed,
                                      unsubscribedAt := Some now,
                                      prospect_updatedAt := now\<rparr>)) (\<lambda>_.
                         io_return (Response 200 (R_confirmation addr))))))
        (\<lambda>error. io_return (Response 500
           (R_text ''An error occurred processing your unsubscribe request''))))"

subsection \<open>Sample environments and states\<close>

text \<open>
  A reliable environment: no store call fails, the mail provider accepts every message,
  the geocoder and the Places API find nothing. Its URL parser and base64 codec are the
  platform's on the few inputs listed.
\<close>

definition sample_url_parse :: "string \<Rightarrow> (string \<times> string) option" where
  "sample_url_parse s =
     (if s = ''http://foo.com'' then Some (''http:'', ''foo.com'')
      else if s = ''http://a$&b.com'' then Some (''http:'', ''a$&b.com'')
      else if s = ''https://www.Example.com/path'' then Some (''https:'', ''www.example.com'')
      else None)"

definition sample_base64_encode :: "string \<Rightarrow> string" where
  "sample_base64_encode s =
     (if s = ''p1:info@foo.com'' then ''cDE6aW5mb0Bmb28uY29t''
      else if s = ''p2:info@foo.com'' then ''cDI6aW5mb0Bmb28uY29t''
      else if s = ''p1:contact@foo.com'' then ''cDE6Y29udGFjdEBmb28uY29t''
      else [])"

definition sample_base64_decode :: "string \<Rightarrow> string" where
  "sample_base64_decode s =
     (if s = ''cDE6aW5mb0Bmb28uY29t'' then ''p1:info@foo.com''
      else if s = ''cDI6aW5mb0Bmb28uY29t'' then ''p2:info@foo.com''
      else if s = ''cDE6Y29udGFjdEBmb28uY29t'' then ''p1:contact@foo.com''
      else [])"

definition env0 :: env where
  "env0 =
     \<lparr>store_fails = (\<lambda>n. False),
      new_doc_id = (\<lambda>n k. replicate (Suc n) CHR ''d'' @ replicate k CHR ''x''),
      url_parse = sample_url_parse,
      base64_encode = sample_base64_encode,
      base64_decode = sample_base64_decode,
      sendgrid_send = (\<lambda>n msg. Inr ''mid''),
      geocode_fetch = (\<lambda>n q. Geo_reply ''ZERO_RESULTS'' (Some [])),
      places_fetch = (\<lambda>n r. Http_ok \<lparr>places = None, nextPageToken = None\<rparr>),
      NODE_ENV = None, CRON_SECRET = None, DEBUG_API_KEY = None,
      GOOGLE_PLACES_API_KEY = Some ''key'', NEXT_PUBLIC_BASE_URL = None,
      DEFAULT_USER_NAME = None, DEFAULT_USER_COMPANY = None\<rparr>"

definition world0 :: world where
  "world0 = \<lparr>jobs = [], prospects = [], unsubscribes = [], outbox = [], console = [],
             status_log = [], sender_calls = [], clock = 0\<rparr>"

definition sample_request :: "js_number \<Rightarrow> js_number \<Rightarrow> CreateJobRequest" where
  "sample_request r m =
     \<lparr>req_niche = Some ''bakery'', req_targetZip = Some ''10001'', req_targetCountry = None,
      req_radiusKm = Some r, req_maxBusinesses = Some m\<rparr>"

definition sample_job :: "string \<Rightarrow> nat \<Rightarrow> JobStatus \<Rightarrow> Job" where
  "sample_job jid created st =
     \<lparr>job_id = jid, job_has_id = True, userId = ''system_user_v1'', job_status = st,
      job_createdAt = created,
      job_updatedAt = created, niche = ''bakery'', targetZip = ''10001'', targetCountry = ''US'',
      radiusKm = 5, maxBusinesses = 3, stats = zero_stats\<rparr>"

definition sample_prospect :: "string \<Rightarrow> string \<Rightarrow> ProspectStatus \<Rightarrow> string option \<Rightarrow> Prospect" where
  "sample_prospect pid jid st email =
     \<lparr>prospect_id = pid, prospect_has_id = True, jobId = jid, prospect_status = st,
      prospect_createdAt = 0,
      prospect_updatedAt = 0, name = ''Foo Bakery'', address = ''1 Main St'',
      website = Some ''http://foo.com'', phone = None, rating = None, reviewCount = None,
      placeId = ''place1'', discoveredEmail = email, emailSource = Inferred,
      sendGridMessageId = None, sentAt = None, bouncedAt = None, bounceReason = None,
      unsubscribedAt = None\<rparr>"

text \<open>A job in the sending stage with one prospect whose address was inferred.\<close>

definition world_sending :: world where
  "world_sending =
     world0\<lparr>jobs := [sample_job ''j1'' 0 Sending],
            prospects := [sample_prospect ''p1'' ''j1'' Email_found (Some ''info@foo.com'')]\<rparr>"

text \<open>An environment whose mail provider rejects every message with the given status
  code, and the parameters of a send to the sample prospect.\<close>

definition env_rejecting :: "nat \<Rightarrow> env" where
  "env_rejecting code =
     env0\<lparr>sendgrid_send := (\<lambda>n msg. Inl (Err (Some code) (Some code) (Some ''Rejected'')))\<rparr>"

definition sample_params :: SendParams where
  "sample_params =
     \<lparr>param_prospect = sample_prospect ''p1'' ''j1'' Email_found (Some ''info@foo.com''),
      param_userName = ''Your Name'', param_userCompany = None,
      param_userService = Some ''bakery'', param_jobId = Some ''j1''\<rparr>"

text \<open>A Places API with three pages of two businesses each, chained by the tokens
  \<^verbatim>\<open>t1\<close> and \<^verbatim>\<open>t2\<close>, and a geocoder that resolves every query.\<close>

definition sample_place :: "string \<Rightarrow> raw_place" where
  "sample_place pid =
     \<lparr>displayName_text = Some ''Foo Bakery'', formattedAddress = Some ''1 Main St'',
      websiteUri = None, nationalPhoneNumber = None, place_rating = None,
      userRatingCount = None, place_id = pid\<rparr>"

definition three_pages :: "places_request \<Rightarrow> fetch_result" where
  "three_pages r =
     (case r of
        TextSearch q lat lng rad n \<Rightarrow>
          Http_ok \<lparr>places = Some [sample_place ''a1'', sample_place ''a2''],
                   nextPageToken = Some ''t1''\<rparr>
      | NextPage token n \<Rightarrow>
          if token = ''t1''
          then Http_ok \<lparr>places = Some [sample_place ''b1'', sample_place ''b2''],
                        nextPageToken = Some ''t2''\<rparr>
          else Http_ok \<lparr>places = Some [sample_place ''c1'', sample_place ''c2''],
                        nextPageToken = None\<rparr>)"

definition env_pages :: env where
  "env_pages =
     env0\<lparr>geocode_fetch := (\<lambda>n q. Geo_reply ''OK''
              (Some [\<lparr>geo_lat = 40, geo_lng = - 74, formatted_address = ''New York''\<rparr>])),
          places_fetch := (\<lambda>n r. three_pages r)\<rparr>"

definition sample_search :: "int \<Rightarrow> PlacesSearchParams" where
  "sample_search cap =
     \<lparr>sp_niche = ''bakery'', sp_targetZip = ''10001'', sp_targetCountry = ''US'',
      sp_radiusKm = 5, sp_maxBusinesses = cap\<rparr>"


text \<open>A prospect whose address is still to be inferred, with the given website.\<close>

definition found_prospect :: "string \<Rightarrow> Prospect" where
  "found_prospect url = (sample_prospect ''p1'' ''j1'' Found None)\<lparr>website := Some url\<rparr>"

text \<open>A job in the discovering stage whose one prospect is still \<^verbatim>\<open>found\<close>.\<close>

definition world_discovering :: world where
  "world_discovering =
     world0\<lparr>jobs := [sample_job ''j1'' 0 Discovering],
            prospects := [sample_prospect ''p1'' ''j1'' Found None]\<rparr>"

subsection \<open>Invariants and triples for asynchronous code\<close>

text \<open>\<open>preserves I m\<close>: whatever \<open>m\<close> returns or throws, it leaves \<open>I\<close> in force.
  \<open>triple P m Q X\<close>: from a state in \<open>P\<close>, \<open>m\<close> ends in \<open>Q\<close> when it returns and in \<open>X\<close>
  when it throws.\<close>

definition preserves :: "(world \<Rightarrow> bool) \<Rightarrow> 'a io \<Rightarrow> bool" where
  "preserves I m = (\<forall>w. I w \<longrightarrow> I (snd (m w)))"

definition triple ::
  "(world \<Rightarrow> bool) \<Rightarrow> 'a io \<Rightarrow> ('a \<Rightarrow> world \<Rightarrow> bool) \<Rightarrow> (js_error \<Rightarrow> world \<Rightarrow> bool) \<Rightarrow> bool" where
  "triple P m Q X =
     (\<forall>w. P w \<longrightarrow> (case m w of (Inl e, w') \<Rightarrow> X e w' | (Inr a, w') \<Rightarrow> Q a w'))"

subsection \<open>The store's reliability\<close>


subsection \<open>The ledger as a predicate\<close>

text \<open>
  \<open>local_parts\<close>: the six local parts of the patterns, each with its at sign.
  \<open>suppressed L email\<close>: the ledger \<open>L\<close> holds the exact lowercased address, or the
  lowercased domain of the address (the text between its first and second at sign), which
  is what \<^verbatim>\<open>isUnsubscribed\<close> computes from its two queries. \<open>first_free L cs\<close>: the first
  candidate of \<open>cs\<close> that \<open>L\<close> does not suppress, as a discovery result.
\<close>

definition local_parts :: "string list" where
  "local_parts = [''info@'', ''contact@'', ''hello@'', ''admin@'', ''support@'', ''business@'']"

definition suppressed :: "Unsubscribe list \<Rightarrow> string \<Rightarrow> bool" where
  "suppressed L email =
     (list_ex (\<lambda>u. unsub_email u = toLowerCase email) L \<or>
      (case at_index (split_on CHR ''@'' email) 1 of
         None \<Rightarrow> False
       | Some d \<Rightarrow> list_ex (\<lambda>u. unsub_domain u = toLowerCase d) L))"




subsection \<open>The stage graph\<close>

text \<open>
  \<open>edge a b\<close>: the pipeline has an edge from \<open>a\<close> to \<open>b\<close>. \<open>terminal\<close>: \<^verbatim>\<open>completed\<close> and
  \<^verbatim>\<open>failed\<close>. \<open>stage\<close>: the position of a status along the pipeline, the two terminal ones
  last. \<open>reaches a b\<close>: a path of edges, possibly empty, leads from \<open>a\<close> to \<open>b\<close>.
\<close>

fun edge :: "JobStatus \<Rightarrow> JobStatus \<Rightarrow> bool" where
  "edge Draft Prospecting = True"
| "edge Prospecting Discovering = True"
| "edge Discovering Sending = True"
| "edge Sending Completed = True"
| "edge Draft Failed = True"
| "edge Prospecting Failed = True"
| "edge Discovering Failed = True"
| "edge Sending Failed = True"
| "edge a b = False"

definition terminal :: "JobStatus \<Rightarrow> bool" where
  "terminal s = (s = Completed \<or> s = Failed)"

fun stage :: "JobStatus \<Rightarrow> nat" where
  "stage Draft = 0"
| "stage Prospecting = 1"
| "stage Discovering = 2"
| "stage Sending = 3"
| "stage Completed = 4"
| "stage Failed = 4"

definition reaches :: "JobStatus \<Rightarrow> JobStatus \<Rightarrow> bool" where
  "reaches a b = (a = b \<or> \<not> terminal a \<and> stage a < stage b)"

text \<open>
  \<open>view w\<close>: what the stage graph speaks about, the transitions written so far and the
  status of every job document. \<open>follows L0 S0 v\<close>: against an earlier log \<open>L0\<close> and
  earlier statuses \<open>S0\<close>, the log was only extended, by edges, and every job is where it
  was or further along. \<open>holds jid a v\<close>: every job document with the id \<open>jid\<close> has the
  status \<open>a\<close>. \<open>live jid v\<close>: that status is not terminal.
\<close>

definition view ::
  "world \<Rightarrow> (string \<times> JobStatus \<times> JobStatus) list \<times> (string \<times> JobStatus) list" where
  "view w = (status_log w, map (\<lambda>j. (job_id j, job_status j)) (jobs w))"

definition follows ::
  "(string \<times> JobStatus \<times> JobStatus) list \<Rightarrow> (string \<times> JobStatus) list \<Rightarrow>
   (string \<times> JobStatus \<times> JobStatus) list \<times> (string \<times> JobStatus) list \<Rightarrow> bool" where
  "follows L0 S0 v =
     (take (length L0) (fst v) = L0 \<and>
      list_all (\<lambda>(jid, a, b). edge a b) (drop (length L0) (fst v)) \<and>
      list_all2 (\<lambda>(i, s) (i', s'). i' = i \<and> reaches s s') S0 (snd v))"

definition holds ::
  "string \<Rightarrow> JobStatus \<Rightarrow>
   (string \<times> JobStatus \<times> JobStatus) list \<times> (string \<times> JobStatus) list \<Rightarrow> bool" where
  "holds jid a v = list_all (\<lambda>(i, s). i \<noteq> jid \<or> s = a) (snd v)"

definition live ::
  "string \<Rightarrow> (string \<times> JobStatus \<times> JobStatus) list \<times> (string \<times> JobStatus) list \<Rightarrow> bool" where
  "live jid v = list_ex (\<lambda>a. holds jid a v) [Draft, Prospecting, Discovering, Sending]"

text \<open>\<open>at_stage L0 S0 jid a\<close>: the assertion under which a job is processed, \<open>follows\<close> and the
  job's status known to be \<open>a\<close>.\<close>

definition at_stage ::
  "(string \<times> JobStatus \<times> JobStatus) list \<Rightarrow> (string \<times> JobStatus) list \<Rightarrow> string \<Rightarrow>
   JobStatus \<Rightarrow> (string \<times> JobStatus \<times> JobStatus) list \<times> (string \<times> JobStatus) list \<Rightarrow> bool" where
  "at_stage L0 S0 jid a v = (follows L0 S0 v \<and> holds jid a v)"

text \<open>Four jobs, one in each of four stages, none with a prospect.\<close>

definition world_pipeline :: world where
  "world_pipeline =
     world0\<lparr>jobs := [sample_job ''j1'' 3 Draft, sample_job ''j2'' 2 Discovering,
                     sample_job ''j3'' 1 Sending, sample_job ''j4'' 0 Completed]\<rparr>"

subsection \<open>A tick\<close>

text \<open>The one step of the loop of a tick, for one job.\<close>

definition tick_step :: "env \<Rightarrow> Job \<Rightarrow> unit io" where
  "tick_step E job =
     io_catch (processJob E job)
       (\<lambda>error. with_id (job_dot_id job) (\<lambda>jid. updateJobStatus E jid Failed))"

text \<open>
  Three states for a tick. \<open>world_created\<close>: the empty store after two requests
  \<^verbatim>\<open>POST /api/jobs\<close>. \<open>world_two_drafts\<close> with \<open>env_outage\<close>: two draft jobs whose documents
  hold an \<^verbatim>\<open>id\<close> field, and a store that fails its second and third call.
  \<open>world_crowded\<close>: a draft job and fifty completed jobs created after it.
\<close>

definition world_created :: world where
  "world_created =
     snd (POST_jobs env0 (Some (sample_request (Fin 75) (Fin (7 / 2))))
       (snd (POST_jobs env0 (Some (sample_request (Fin 75) (Fin (7 / 2)))) world0)))"

definition env_outage :: env where
  "env_outage = env0\<lparr>store_fails := (\<lambda>n. n = 1 \<or> n = 2)\<rparr>"

definition world_two_drafts :: world where
  "world_two_drafts =
     world0\<lparr>jobs := [sample_job ''j1'' 1 Draft, sample_job ''j2'' 0 Draft]\<rparr>"

definition world_crowded :: world where
  "world_crowded =
     world0\<lparr>jobs := sample_job ''old'' 0 Draft #
                    map (\<lambda>n. sample_job (replicate n CHR ''c'') n Completed) [1..<51]\<rparr>"
section \<open>Properties\<close>

subsection \<open>Unfolding the asynchronous combinators\<close>

lemmas io_defs = io_catch_def io_bind_def io_return_def io_throw_def store_call_def
  store_read_def advance_def Let_def

lemmas sanitize_defs = falsy_number_def sanitizeNiche_def sanitizeLocationInput_def trim_def
  is_space_def is_zip_def is_digit_def is_word_def is_upper_def sanitizeCountryCode_def
  toUpperCase_def upper_of_def sanitizeRadius_def sanitizeMaxBusinesses_def isNaN_def
  INTERNAL_USER_ID_def

lemmas sample_defs = env0_def world0_def world_sending_def sample_job_def sample_prospect_def
  sample_url_parse_def sample_base64_encode_def sample_base64_decode_def zero_stats_def

lemmas store_defs = getJob_def getProspectsForSending_def getProspectsForJob_def
  updateProspectStatus_def update_prospect_def updateJobStatus_def incrementJobStat_def
  getAllJobs_def isUnsubscribed_def addUnsubscribe_def batchCreateProspects_def
  io_all2_def apply_limit_def at_index_def with_id_def job_dot_id_def prospect_dot_id_def


subsection \<open>Splitting a string\<close>

lemma split_on_nonempty: "split_on c s \<noteq> []"
  by (induction s) (auto split: list.splits)

lemma split_on_has_second:
  "c \<in> set s \<Longrightarrow> \<exists>d. at_index (split_on c s) 1 = Some d"
proof (induction s)
  case Nil
  then show ?case by simp
next
  case (Cons x xs)
  show ?case
  proof (cases "x = c")
    case True
    then show ?thesis
      using split_on_nonempty [of c xs]
      by (cases "split_on c xs") (auto simp: at_index_def)
  next
    case False
    with Cons obtain d where "at_index (split_on c xs) 1 = Some d" by auto
    with False show ?thesis
      by (cases "split_on c xs") (auto simp: at_index_def split: if_splits)
  qed
qed

subsection \<open>Rules for invariants\<close>

lemma preserves_return: "preserves I (io_return a)"
  by (simp add: preserves_def io_return_def)

lemma preserves_throw: "preserves I (io_throw e)"
  by (simp add: preserves_def io_throw_def)

lemma preserves_bind:
  "preserves I m \<Longrightarrow> (\<And>a. preserves I (f a)) \<Longrightarrow> preserves I (io_bind m f)"
  by (auto simp: preserves_def io_bind_def split: prod.splits sum.splits)

lemma preserves_catch:
  "preserves I m \<Longrightarrow> (\<And>e. preserves I (h e)) \<Longrightarrow> preserves I (io_catch m h)"
  by (auto simp: preserves_def io_catch_def split: prod.splits sum.splits)

lemma preserves_all2:
  "preserves I m \<Longrightarrow> preserves I n \<Longrightarrow> preserves I (io_all2 m n)"
  by (auto simp: preserves_def io_all2_def split: prod.splits sum.splits)

lemma preserves_fold:
  "(\<And>x acc. x \<in> set xs \<Longrightarrow> preserves I (f x acc)) \<Longrightarrow> preserves I (io_fold f xs acc)"
  by (induction xs arbitrary: acc) (auto intro: preserves_return preserves_bind)

lemma preserves_map:
  "(\<And>x. x \<in> set xs \<Longrightarrow> preserves I (f x)) \<Longrightarrow> preserves I (io_map f xs)"
  by (induction xs) (auto intro!: preserves_return preserves_bind)

lemma preserves_store_call:
  "(\<And>w. I w \<Longrightarrow> I (advance w)) \<Longrightarrow>
   (\<And>w a w'. I w \<Longrightarrow> f (advance w) = Inr (a, w') \<Longrightarrow> I w') \<Longrightarrow>
   preserves I (store_call E f)"
  by (auto simp: preserves_def store_call_def split: sum.splits)

lemma preserves_store_read:
  "(\<And>w. I w \<Longrightarrow> I (advance w)) \<Longrightarrow> preserves I (store_read E f)"
  unfolding store_read_def by (rule preserves_store_call) auto

lemma preserves_provider_call:
  "(\<And>w. I w \<Longrightarrow> I (advance w)) \<Longrightarrow> preserves I (provider_call f)"
  by (simp add: preserves_def provider_call_def)

lemma preserves_if:
  "(c \<Longrightarrow> preserves I a) \<Longrightarrow> (\<not> c \<Longrightarrow> preserves I b) \<Longrightarrow> preserves I (if c then a else b)"
  by simp

lemma preserves_case_option:
  "(x = None \<Longrightarrow> preserves I a) \<Longrightarrow> (\<And>y. x = Some y \<Longrightarrow> preserves I (b y)) \<Longrightarrow>
   preserves I (case x of None \<Rightarrow> a | Some y \<Rightarrow> b y)"
  by (cases x) auto

lemma preserves_case_prod:
  "(\<And>a b. x = (a, b) \<Longrightarrow> preserves I (f a b)) \<Longrightarrow> preserves I (case x of (a, b) \<Rightarrow> f a b)"
  by (cases x) auto

lemma preserves_case_outcome:
  "(\<And>y. preserves I (a y)) \<Longrightarrow> (\<And>y. preserves I (b y)) \<Longrightarrow>
   preserves I (case x of Send_ok y \<Rightarrow> a y | Send_failed y \<Rightarrow> b y)"
  by (cases x) auto

lemma preserves_case_fetch:
  "(\<And>y. preserves I (a y)) \<Longrightarrow> (\<And>p q r. preserves I (b p q r)) \<Longrightarrow> (\<And>y. preserves I (c y)) \<Longrightarrow>
   preserves I (case x of Fetch_throws y \<Rightarrow> a y | Http_not_ok p q r \<Rightarrow> b p q r | Http_ok y \<Rightarrow> c y)"
  by (cases x) auto

lemma preserves_case_geo:
  "(\<And>y. preserves I (a y)) \<Longrightarrow> (\<And>p q. preserves I (b p q)) \<Longrightarrow>
   preserves I (case x of Geo_throws y \<Rightarrow> a y | Geo_reply p q \<Rightarrow> b p q)"
  by (cases x) auto

lemma preserves_case_list:
  "preserves I a \<Longrightarrow> (\<And>y ys. preserves I (b y ys)) \<Longrightarrow>
   preserves I (case x of [] \<Rightarrow> a | y # ys \<Rightarrow> b y ys)"
  by (cases x) auto

lemma preserves_case_status:
  "preserves I a \<Longrightarrow> preserves I b \<Longrightarrow> preserves I c \<Longrightarrow> preserves I d \<Longrightarrow>
   preserves I e \<Longrightarrow> preserves I f \<Longrightarrow>
   preserves I (case x of Draft \<Rightarrow> a | Prospecting \<Rightarrow> b | Discovering \<Rightarrow> c | Sending \<Rightarrow> d
                | Completed \<Rightarrow> e | Failed \<Rightarrow> f)"
  by (cases x) auto

lemma preserves_with_id:
  "(\<And>s. i = Some s \<Longrightarrow> preserves I (f s)) \<Longrightarrow> preserves I (with_id i f)"
  by (cases i) (simp_all add: with_id_def preserves_throw)

lemmas preserves_intros = preserves_return preserves_throw preserves_bind preserves_catch
  preserves_with_id
  preserves_all2 preserves_fold preserves_map preserves_if preserves_case_option
  preserves_case_prod preserves_case_outcome preserves_case_fetch preserves_case_geo
  preserves_case_list preserves_case_status

lemma preservesD: "preserves I m \<Longrightarrow> I w \<Longrightarrow> m w = (r, w') \<Longrightarrow> I w'"
  by (auto simp: preserves_def dest: spec [of _ w])

lemma preserves_conj:
  "preserves I m \<Longrightarrow> preserves J m \<Longrightarrow> preserves (\<lambda>w. I w \<and> J w) m"
  by (simp add: preserves_def)

lemma preserves_ball:
  "(\<And>x. x \<in> S \<Longrightarrow> preserves (P x) m) \<Longrightarrow> preserves (\<lambda>w. \<forall>x\<in>S. P x w) m"
  by (simp add: preserves_def)

lemma preserves_view:
  "(\<And>v. preserves (\<lambda>w. g w = v) m) \<Longrightarrow> preserves (\<lambda>w. P (g w)) m"
  by (simp add: preserves_def)

subsection \<open>Rules for triples\<close>

lemma triple_return: "(\<And>w. P w \<Longrightarrow> Q a w) \<Longrightarrow> triple P (io_return a) Q X"
  by (simp add: triple_def io_return_def)

lemma triple_throw: "(\<And>w. P w \<Longrightarrow> X e w) \<Longrightarrow> triple P (io_throw e) Q X"
  by (simp add: triple_def io_throw_def)

lemma triple_bind:
  "triple P m R X \<Longrightarrow> (\<And>a. triple (R a) (f a) Q X) \<Longrightarrow> triple P (io_bind m f) Q X"
  by (fastforce simp: triple_def io_bind_def split: prod.splits sum.splits)

lemma triple_catch:
  "triple P m Q Y \<Longrightarrow> (\<And>e. triple (Y e) (h e) Q X) \<Longrightarrow> triple P (io_catch m h) Q X"
  by (fastforce simp: triple_def io_catch_def split: prod.splits sum.splits)

lemma triple_weaken:
  "triple P' m Q' X' \<Longrightarrow> (\<And>w. P w \<Longrightarrow> P' w) \<Longrightarrow> (\<And>a w. Q' a w \<Longrightarrow> Q a w) \<Longrightarrow>
   (\<And>e w. X' e w \<Longrightarrow> X e w) \<Longrightarrow> triple P m Q X"
  by (fastforce simp: triple_def split: prod.splits sum.splits)

lemma triple_preserves: "preserves I m \<Longrightarrow> triple I m (\<lambda>_. I) (\<lambda>_. I)"
  by (auto simp: triple_def preserves_def split: prod.splits sum.splits)

lemma triple_frame:
  "triple P m Q X \<Longrightarrow> preserves I m \<Longrightarrow>
   triple (\<lambda>w. P w \<and> I w) m (\<lambda>a w. Q a w \<and> I w) (\<lambda>e w. X e w \<and> I w)"
  by (auto simp: triple_def preserves_def split: prod.splits sum.splits)

lemma triple_fold:
  "(\<And>x acc. x \<in> set xs \<Longrightarrow> triple I (f x acc) (\<lambda>_. I) X) \<Longrightarrow>
   triple I (io_fold f xs acc) (\<lambda>_. I) X"
  by (induction xs arbitrary: acc) (auto intro: triple_return triple_bind)

lemma triple_if:
  "(c \<Longrightarrow> triple P a Q X) \<Longrightarrow> (\<not> c \<Longrightarrow> triple P b Q X) \<Longrightarrow> triple P (if c then a else b) Q X"
  by simp

lemma triple_case_prod:
  "(\<And>a b. x = (a, b) \<Longrightarrow> triple P (f a b) Q X) \<Longrightarrow> triple P (case x of (a, b) \<Rightarrow> f a b) Q X"
  by (cases x) auto

lemma triple_case_option:
  "(x = None \<Longrightarrow> triple P a Q X) \<Longrightarrow> (\<And>y. x = Some y \<Longrightarrow> triple P (b y) Q X) \<Longrightarrow>
   triple P (case x of None \<Rightarrow> a | Some y \<Rightarrow> b y) Q X"
  by (cases x) auto

lemma triple_case_outcome:
  "(\<And>y. x = Send_ok y \<Longrightarrow> triple P (a y) Q X) \<Longrightarrow> (\<And>y. x = Send_failed y \<Longrightarrow> triple P (b y) Q X) \<Longrightarrow>
   triple P (case x of Send_ok y \<Rightarrow> a y | Send_failed y \<Rightarrow> b y) Q X"
  by (cases x) auto

lemma triple_with_id:
  "(\<And>s. i = Some s \<Longrightarrow> triple P (f s) Q X) \<Longrightarrow> (\<And>w. P w \<Longrightarrow> X invalid_argument w) \<Longrightarrow>
   triple P (with_id i f) Q X"
  by (cases i) (simp_all add: with_id_def triple_throw)

lemma triple_pre_false: "(\<And>w. \<not> P w) \<Longrightarrow> triple P m Q X"
  by (simp add: triple_def)

lemma tripleD:
  "triple P m Q X \<Longrightarrow> P w \<Longrightarrow> m w = (r, w') \<Longrightarrow>
   (case r of Inl e \<Rightarrow> X e w' | Inr a \<Rightarrow> Q a w')"
  by (auto simp: triple_def split: prod.splits sum.splits)


lemma preserves_triple:
  assumes "triple I m (\<lambda>_. I) (\<lambda>_. I)"
  shows "preserves I m"
  unfolding preserves_def
proof (intro allI impI)
  fix w assume "I w"
  obtain r w' where run: "m w = (r, w')" by (cases "m w")
  from assms \<open>I w\<close> run have "I w'"
    by (cases r) (auto simp: triple_def)
  with run show "I (snd (m w))" by simp
qed

lemma preserves_bind_with:
  assumes "triple I m (\<lambda>a w. I w \<and> C a) (\<lambda>_. I)"
    and "\<And>a. C a \<Longrightarrow> preserves I (f a)"
  shows "preserves I (io_bind m f)"
  unfolding preserves_def
proof (intro allI impI)
  fix w assume "I w"
  obtain r w' where run: "m w = (r, w')" by (cases "m w")
  show "I (snd (io_bind m f w))"
  proof (cases r)
    case (Inl e)
    with assms(1) \<open>I w\<close> run show ?thesis
      by (auto simp: triple_def io_bind_def)
  next
    case (Inr a)
    with assms(1) \<open>I w\<close> run have "I w'" "C a"
      by (auto simp: triple_def)
    with assms(2) [of a] run Inr show ?thesis
      by (simp add: preserves_def io_bind_def)
  qed
qed

subsection \<open>What a call of the sender does\<close>

lemma sendEmailToProspect_run:
  "sendEmailToProspect E params w =
     (Inl ReferenceError, w\<lparr>sender_calls := sender_calls w @ [param_prospect params]\<rparr>)"
  by (simp add: sendEmailToProspect_def enter_sender_def unbound_identifier_def io_bind_def
      io_throw_def)


subsection \<open>Email inference: the ledger queries and the candidates\<close>




subsection \<open>The candidates\<close>

lemma candidates_by_substitution:
  "generateInferredEmails d =
     map (\<lambda>l. l @ get_substitution ''{domain}'' l [] d) local_parts"
  by (simp add: generateInferredEmails_def EMAIL_PATTERNS_def js_replace_def startsWith_def
      local_parts_def)

lemma get_substitution_plain:
  "CHR ''$'' \<notin> set d \<Longrightarrow> get_substitution m b a d = d"
  by (induction m b a d rule: get_substitution.induct) auto

lemma candidates_plain:
  "CHR ''$'' \<notin> set d \<Longrightarrow> generateInferredEmails d = map (\<lambda>l. l @ d) local_parts"
  by (simp add: candidates_by_substitution get_substitution_plain)


subsection \<open>The sender does not look at the ledger\<close>























lemmas inference_defs = discoverEmailForProspect_def extractDomain_def generateInferredEmails_def
  EMAIL_PATTERNS_def js_replace_def startsWith_def strip_www_def toLowerCase_def lower_of_def
  found_prospect_def

lemmas cron_defs = GET_cron_def processJob_def handleProspecting_def handleEmailDiscovery_def
  handleSending_def is_active_def console_log_def SENDING_BATCH_SIZE_def
  EMAIL_DISCOVERY_BATCH_SIZE_def batchDiscoverEmails_def write_discovery_def nonempty_def




subsection \<open>The discovering stage\<close>

text \<open>
  C2 fails in the code. The re-check after a short batch reads \<^verbatim>\<open>remaining.total\<close>, which
  \<^verbatim>\<open>getProspectsForJob\<close> computes by counting every prospect of the job, whatever its
  status. A job whose one prospect was \<^verbatim>\<open>found\<close> is run through the handler: the batch has
  one prospect, fewer than 50; afterwards the prospect is \<^verbatim>\<open>email_found\<close> and no prospect of
  the job is \<^verbatim>\<open>found\<close>; the count of found prospects is zero but \<^verbatim>\<open>total\<close> is one, so the
  job is still \<^verbatim>\<open>discovering\<close>. It reaches \<^verbatim>\<open>sending\<close> on the next tick, when the fetched
  batch is empty.
\<close>

theorem discovery_recheck_counts_every_prospect:
  "fst (getProspectsForJob env0 ''j1'' (Some Found) (Some EMAIL_DISCOVERY_BATCH_SIZE)
          world_discovering) =
     Inr ([sample_prospect ''p1'' ''j1'' Found None], 1) \<and>
   map prospect_status
     (prospects (snd (handleEmailDiscovery env0 (sample_job ''j1'' 0 Discovering)
        world_discovering))) = [Email_found] \<and>
   fst (getProspectsForJob env0 ''j1'' (Some Found) None
          (snd (handleEmailDiscovery env0 (sample_job ''j1'' 0 Discovering)
             world_discovering))) =
     Inr ([], 1) \<and>
   map job_status
     (jobs (snd (handleEmailDiscovery env0 (sample_job ''j1'' 0 Discovering)
        world_discovering))) = [Discovering] \<and>
   map job_status
     (jobs (snd (GET_cron env0 None
        (snd (handleEmailDiscovery env0 (sample_job ''j1'' 0 Discovering)
           world_discovering))))) = [Sending]"
proof -
  have step: "snd (handleEmailDiscovery env0 (sample_job ''j1'' 0 Discovering)
      world_discovering) =
    world_discovering\<lparr>
      jobs := [(sample_job ''j1'' 0 Discovering)
                 \<lparr>job_updatedAt := 6, stats := zero_stats\<lparr>withEmail := 1\<rparr>\<rparr>],
      prospects := [(sample_prospect ''p1'' ''j1'' Email_found (Some ''info@foo.com''))
                 \<lparr>prospect_updatedAt := 5\<rparr>],
      clock := 8\<rparr>"
    by (simp add: cron_defs io_defs store_defs sample_defs world_discovering_def inference_defs
        truthy_def or_else_def suppressed_def)
  show ?thesis
    unfolding step
    by (simp add: cron_defs io_defs store_defs sample_defs world_discovering_def)
qed

subsection \<open>The business finder fetches one continuation page\<close>

lemmas places_defs = searchBusinesses_def geocodeLocation_def fetchNextPage_def provider_call_def

lemma length_slice0: "0 \<le> n \<Longrightarrow> int (length (slice0 xs n)) \<le> n"
  by (simp add: slice0_def)

lemma search_never_longer:
  assumes "searchBusinesses E params w = (Inr bs, w')" and "0 \<le> sp_maxBusinesses params"
  shows "int (length bs) \<le> sp_maxBusinesses params"
  using assms length_slice0 [of "sp_maxBusinesses params"]
  by (auto simp: places_defs io_defs
      split: if_splits option.splits list.splits geocode_reply.splits fetch_result.splits
        sum.splits prod.splits)

lemma search_three_calls:
  "clock (snd (searchBusinesses E params w)) \<le> clock w + 3"
  by (auto simp: places_defs io_defs
      split: if_splits option.splits list.splits geocode_reply.splits fetch_result.splits
        sum.splits prod.splits)

lemma search_second_page:
  assumes key: "truthy (GOOGLE_PLACES_API_KEY E)"
    and geo: "geocode_fetch E (clock w) (sp_targetZip params @ '', '' @ sp_targetCountry params) =
                Geo_reply ''OK'' (Some (loc # locs))"
    and first: "places_fetch E (Suc (clock w))
                  (TextSearch (sp_niche params @ '' near '' @ sp_targetZip params @ '', '' @
                                 sp_targetCountry params)
                     (geo_lat loc) (geo_lng loc) (radiusKmToMeters (sp_radiusKm params))
                     (min (sp_maxBusinesses params) 20)) =
                Http_ok \<lparr>places = Some ps, nextPageToken = Some token\<rparr>"
    and tok: "token \<noteq> []"
    and fewer: "int (length ps) < sp_maxBusinesses params"
  shows "searchBusinesses E params w =
          (case places_fetch E (clock w + 2)
                  (NextPage token (min (sp_maxBusinesses params - int (length ps)) 20)) of
             Fetch_throws e \<Rightarrow> (Inl e, w\<lparr>clock := clock w + 3\<rparr>)
           | Http_not_ok st statusText errorText \<Rightarrow>
               (Inr (slice0 (map (to_business E) ps) (sp_maxBusinesses params)),
                w\<lparr>clock := clock w + 3\<rparr>)
           | Http_ok page2 \<Rightarrow>
               (Inr (slice0 (map (to_business E) ps @
                               map (to_business E)
                                 (case places page2 of None \<Rightarrow> [] | Some qs \<Rightarrow> qs))
                       (sp_maxBusinesses params)),
                w\<lparr>clock := clock w + 3\<rparr>))"
  using assms
  by (simp add: places_defs io_defs truthy_def or_else_def
      split: fetch_result.splits option.splits)

text \<open>
  C4 (as amended). \<^verbatim>\<open>searchBusinesses\<close> makes at most three provider calls: the geocoding
  request, the first search page and at most one continuation page. When the first page
  carries a continuation token and fewer businesses than the maximum, it requests the
  page behind that token once, asking for the missing number of results capped at 20,
  and does not read that page's own token: the result is the first page followed by the
  second (nothing, when the second response is not \<^verbatim>\<open>ok\<close> or has no places), cut by
  \<^verbatim>\<open>slice(0, max)\<close>, so with a maximum that is not negative it is never longer than the
  maximum.
\<close>

theorem search_fetches_one_continuation_page:
  "clock (snd (searchBusinesses E params w)) \<le> clock w + 3 \<and>
   (searchBusinesses E params w = (Inr bs, w') \<and> 0 \<le> sp_maxBusinesses params \<longrightarrow>
      int (length bs) \<le> sp_maxBusinesses params) \<and>
   (truthy (GOOGLE_PLACES_API_KEY E) \<and>
    geocode_fetch E (clock w) (sp_targetZip params @ '', '' @ sp_targetCountry params) =
      Geo_reply ''OK'' (Some (loc # locs)) \<and>
    places_fetch E (Suc (clock w))
      (TextSearch (sp_niche params @ '' near '' @ sp_targetZip params @ '', '' @
                     sp_targetCountry params)
         (geo_lat loc) (geo_lng loc) (radiusKmToMeters (sp_radiusKm params))
         (min (sp_maxBusinesses params) 20)) =
      Http_ok \<lparr>places = Some ps, nextPageToken = Some token\<rparr> \<and>
    token \<noteq> [] \<and> int (length ps) < sp_maxBusinesses params \<longrightarrow>
      searchBusinesses E params w =
        (case places_fetch E (clock w + 2)
                (NextPage token (min (sp_maxBusinesses params - int (length ps)) 20)) of
           Fetch_throws e \<Rightarrow> (Inl e, w\<lparr>clock := clock w + 3\<rparr>)
         | Http_not_ok st statusText errorText \<Rightarrow>
             (Inr (slice0 (map (to_business E) ps) (sp_maxBusinesses params)),
              w\<lparr>clock := clock w + 3\<rparr>)
         | Http_ok page2 \<Rightarrow>
             (Inr (slice0 (map (to_business E) ps @
                             map (to_business E)
                               (case places page2 of None \<Rightarrow> [] | Some qs \<Rightarrow> qs))
                     (sp_maxBusinesses params)),
              w\<lparr>clock := clock w + 3\<rparr>)))"
  using search_three_calls [of E params w] search_never_longer [of E params w bs w']
    search_second_page [of E w params loc locs ps token]
  by blast

lemmas pages_defs = env_pages_def three_pages_def sample_search_def sample_place_def

text \<open>A run of the theorem on the three-page provider with a maximum of 3: the two
  businesses of the first page and the first business of the second.\<close>

theorem search_fetches_one_continuation_page_witness:
  "map b_placeId (case fst (searchBusinesses env_pages (sample_search 3) world0) of
                    Inr bs \<Rightarrow> bs | Inl e \<Rightarrow> []) = [''a1'', ''a2'', ''b1''] \<and>
   clock (snd (searchBusinesses env_pages (sample_search 3) world0)) = 3"
proof -
  have "searchBusinesses env_pages (sample_search 3) world0 =
        (case places_fetch env_pages (clock world0 + 2)
                (NextPage ''t1'' (min (sp_maxBusinesses (sample_search 3) -
                   int (length [sample_place ''a1'', sample_place ''a2''])) 20)) of
           Fetch_throws e \<Rightarrow> (Inl e, world0\<lparr>clock := clock world0 + 3\<rparr>)
         | Http_not_ok st statusText errorText \<Rightarrow>
             (Inr (slice0 (map (to_business env_pages) [sample_place ''a1'', sample_place ''a2''])
                     (sp_maxBusinesses (sample_search 3))),
              world0\<lparr>clock := clock world0 + 3\<rparr>)
         | Http_ok page2 \<Rightarrow>
             (Inr (slice0 (map (to_business env_pages) [sample_place ''a1'', sample_place ''a2''] @
                             map (to_business env_pages)
                               (case places page2 of None \<Rightarrow> [] | Some qs \<Rightarrow> qs))
                     (sp_maxBusinesses (sample_search 3))),
              world0\<lparr>clock := clock world0 + 3\<rparr>))"
    using search_fetches_one_continuation_page [of env_pages "sample_search 3" world0 _ _
        "\<lparr>geo_lat = 40, geo_lng = - 74, formatted_address = ''New York''\<rparr>" "[]"
        "[sample_place ''a1'', sample_place ''a2'']" "''t1''"]
    by (simp add: env_pages_def env0_def three_pages_def sample_search_def truthy_def)
  then show ?thesis
    by (simp add: pages_defs env0_def world0_def slice0_def to_business_def truthy_def
        or_else_def nonempty_def)
qed

text \<open>C4 as stated fails: with a maximum of 5 the result holds 4 businesses, although the
  second page carried the continuation token \<^verbatim>\<open>t2\<close>, whose page holds two more; that
  page is never requested (the run makes three provider calls).\<close>

theorem successive_pages_counterexample:
  "map b_placeId (case fst (searchBusinesses env_pages (sample_search 5) world0) of
                    Inr bs \<Rightarrow> bs | Inl e \<Rightarrow> []) = [''a1'', ''a2'', ''b1'', ''b2''] \<and>
   clock (snd (searchBusinesses env_pages (sample_search 5) world0)) = 3 \<and>
   places_fetch env_pages 2 (NextPage ''t1'' 3) =
     Http_ok \<lparr>places = Some [sample_place ''b1'', sample_place ''b2''],
              nextPageToken = Some ''t2''\<rparr> \<and>
   places_fetch env_pages 3 (NextPage ''t2'' 1) =
     Http_ok \<lparr>places = Some [sample_place ''c1'', sample_place ''c2''],
              nextPageToken = None\<rparr>"
  by (simp add: places_defs io_defs pages_defs env0_def world0_def slice0_def to_business_def
      truthy_def or_else_def nonempty_def radiusKmToMeters_def)

subsection \<open>What the inference engine returns\<close>

text \<open>
  C5 fails in the code on a domain that holds a dollar sign. The candidates are made by
  \<^verbatim>\<open>pattern.replace('{domain}', domain)\<close>, and \<^verbatim>\<open>String.replace\<close> reads its second argument as
  a replacement template, in which \<^verbatim>\<open>$&\<close> stands for the matched text. For the website
  \<^verbatim>\<open>http://a$&b.com\<close> the extracted domain is \<^verbatim>\<open>a$&b.com\<close>, and the six candidates have
  \<^verbatim>\<open>a{domain}b.com\<close> after the at sign, not the domain; with an empty ledger the first of
  them is returned as the discovered email, with \<^verbatim>\<open>email_found\<close>.
\<close>

theorem candidates_expand_dollar_patterns:
  "extractDomain env0 ''http://a$&b.com'' = Some ''a$&b.com'' \<and>
   generateInferredEmails ''a$&b.com'' =
     [''info@a{domain}b.com'', ''contact@a{domain}b.com'', ''hello@a{domain}b.com'',
      ''admin@a{domain}b.com'', ''support@a{domain}b.com'', ''business@a{domain}b.com''] \<and>
   generateInferredEmails ''a$&b.com'' \<noteq>
     map (\<lambda>local_part. local_part @ ''a$&b.com'')
       [''info@'', ''contact@'', ''hello@'', ''admin@'', ''support@'', ''business@''] \<and>
   discoverEmailForProspect env0 (found_prospect ''http://a$&b.com'') world0 =
     (Inr (Some ''info@a{domain}b.com'', Email_found), world0\<lparr>clock := 2\<rparr>)"
  by (simp add: inference_defs io_defs store_defs sample_defs truthy_def or_else_def)

subsection \<open>A send that fails\<close>

text \<open>
  C6 fails in the code. The classification of a failed send sits in the \<^verbatim>\<open>catch\<close> block
  around \<^verbatim>\<open>sgMail.send\<close>, and no call reaches it: the first statement of
  \<^verbatim>\<open>sendEmailToProspect\<close> reads the unbound \<^verbatim>\<open>prospect\<close> and throws a ReferenceError. So for
  every environment, every parameter and every state the call ends in that error, hands
  no message to the provider and writes no prospect. With a provider that rejects every
  message with status code 400, the sample prospect is not marked \<^verbatim>\<open>bounced\<close>: it stays
  \<^verbatim>\<open>email_found\<close>, with no bounce reason and no bounce time.
\<close>

theorem send_throws_before_provider:
  "fst (sendEmailToProspect E params w) = Inl ReferenceError \<and>
   outbox (snd (sendEmailToProspect E params w)) = outbox w \<and>
   prospects (snd (sendEmailToProspect E params w)) = prospects w \<and>
   map (\<lambda>p. (prospect_status p, bounceReason p, bouncedAt p))
     (prospects (snd (sendEmailToProspect (env_rejecting 400) sample_params world_sending))) =
     [(Email_found, None, None)]"
  by (simp add: sendEmailToProspect_run world_sending_def sample_prospect_def)

subsection \<open>Operations that leave the stage graph and the console alone\<close>

lemma view_advance [simp]: "view (advance w) = view w"
  by (simp add: view_def advance_def)

lemma console_advance [simp]: "console (advance w) = console w"
  by (simp add: advance_def)

lemma still_store_read: "preserves (\<lambda>w. view w = v \<and> console w = k) (store_read E f)"
  by (rule preserves_store_read) simp

lemma still_provider_call: "preserves (\<lambda>w. view w = v \<and> console w = k) (provider_call f)"
  by (rule preserves_provider_call) simp

lemma still_getAllJobs: "preserves (\<lambda>w. view w = v \<and> console w = k) (getAllJobs E n)"
  unfolding getAllJobs_def by (rule still_store_read)

lemma still_incrementJobStat: "preserves (\<lambda>w. view w = v \<and> console w = k) (incrementJobStat E jid field n)"
  unfolding incrementJobStat_def
  by (rule preserves_store_call)
    (auto simp: view_def advance_def if_distrib [of job_id] if_distrib [of job_status]
      split: option.splits)

lemma still_batchCreateProspects:
  "preserves (\<lambda>w. view w = v \<and> console w = k) (batchCreateProspects E jid ps)"
  unfolding batchCreateProspects_def
  by (intro preserves_intros preserves_store_call) (auto simp: view_def advance_def)

lemma still_update_prospect: "preserves (\<lambda>w. view w = v \<and> console w = k) (update_prospect E pid f)"
  unfolding update_prospect_def
  by (rule preserves_store_call) (auto simp: view_def advance_def split: option.splits)

lemma still_updateProspectStatus:
  "preserves (\<lambda>w. view w = v \<and> console w = k) (updateProspectStatus E pid s email src)"
  unfolding updateProspectStatus_def by (rule still_update_prospect)

lemma still_getProspectsForJob: "preserves (\<lambda>w. view w = v \<and> console w = k) (getProspectsForJob E jid st n)"
  unfolding getProspectsForJob_def by (intro preserves_intros still_store_read)

lemma still_getProspectsForSending:
  "preserves (\<lambda>w. view w = v \<and> console w = k) (getProspectsForSending E jid n)"
  unfolding getProspectsForSending_def by (rule still_store_read)

lemma still_isUnsubscribed: "preserves (\<lambda>w. view w = v \<and> console w = k) (isUnsubscribed E email)"
  unfolding isUnsubscribed_def Let_def by (intro preserves_intros still_store_read)

lemma still_try_candidates: "preserves (\<lambda>w. view w = v \<and> console w = k) (try_candidates E cs)"
  by (induction cs) (auto intro!: preserves_intros still_isUnsubscribed)

lemma still_discoverEmailForProspect:
  "preserves (\<lambda>w. view w = v \<and> console w = k) (discoverEmailForProspect E prospect)"
  unfolding discoverEmailForProspect_def by (intro preserves_intros still_try_candidates)

lemma still_batchDiscoverEmails: "preserves (\<lambda>w. view w = v \<and> console w = k) (batchDiscoverEmails E ps)"
  unfolding batchDiscoverEmails_def by (intro preserves_intros still_discoverEmailForProspect)

lemma still_write_discovery: "preserves (\<lambda>w. view w = v \<and> console w = k) (write_discovery E result n)"
  unfolding write_discovery_def Let_def by (intro preserves_intros still_updateProspectStatus)

lemma still_sgMail_send: "preserves (\<lambda>w. view w = v \<and> console w = k) (sgMail_send E msg)"
  by (auto simp: preserves_def sgMail_send_def advance_def view_def split: sum.splits)

lemma still_sendEmailToProspect:
  "preserves (\<lambda>w. view w = v \<and> console w = k) (sendEmailToProspect E params)"
  by (simp add: preserves_def sendEmailToProspect_run view_def)

lemma still_batchSendEmails: "preserves (\<lambda>w. view w = v \<and> console w = k) (batchSendEmails E ps jid cfg)"
  unfolding batchSendEmails_def by (intro preserves_intros still_sendEmailToProspect)

lemma still_geocodeLocation: "preserves (\<lambda>w. view w = v \<and> console w = k) (geocodeLocation E z c)"
  unfolding geocodeLocation_def Let_def by (intro preserves_intros still_provider_call)

lemma still_fetchNextPage: "preserves (\<lambda>w. view w = v \<and> console w = k) (fetchNextPage E token n)"
  unfolding fetchNextPage_def by (intro preserves_intros still_provider_call)

lemma still_searchBusinesses: "preserves (\<lambda>w. view w = v \<and> console w = k) (searchBusinesses E params)"
  unfolding searchBusinesses_def Let_def
  by (intro preserves_intros still_provider_call still_geocodeLocation still_fetchNextPage)

lemma still_getProspectsFromPlaces:
  "preserves (\<lambda>w. view w = v \<and> console w = k) (getProspectsFromPlaces E jid params)"
  unfolding getProspectsFromPlaces_def by (intro preserves_intros still_searchBusinesses)

lemma still_quiet:
  assumes "\<And>v k. preserves (\<lambda>w. view w = v \<and> console w = k) m"
  shows "preserves (\<lambda>w. view w = v) m"
  unfolding preserves_def
proof (intro allI impI)
  fix w assume "view w = v"
  with assms [of v "console w"] show "view (snd (m w)) = v"
    by (simp add: preserves_def)
qed

lemma still_console:
  assumes "\<And>v k. preserves (\<lambda>w. view w = v \<and> console w = k) m"
  shows "preserves (\<lambda>w. console w = k) m"
  unfolding preserves_def
proof (intro allI impI)
  fix w :: world assume "console w = k"
  with assms [of "view w" k] show "console (snd (m w)) = k"
    by (simp add: preserves_def)
qed

lemmas quiet_store_read = still_quiet [OF still_store_read]
lemmas quiet_provider_call = still_quiet [OF still_provider_call]
lemmas quiet_getAllJobs = still_quiet [OF still_getAllJobs]
lemmas quiet_incrementJobStat = still_quiet [OF still_incrementJobStat]
lemmas quiet_batchCreateProspects = still_quiet [OF still_batchCreateProspects]
lemmas quiet_update_prospect = still_quiet [OF still_update_prospect]
lemmas quiet_updateProspectStatus = still_quiet [OF still_updateProspectStatus]
lemmas quiet_getProspectsForJob = still_quiet [OF still_getProspectsForJob]
lemmas quiet_getProspectsForSending = still_quiet [OF still_getProspectsForSending]
lemmas quiet_isUnsubscribed = still_quiet [OF still_isUnsubscribed]
lemmas quiet_try_candidates = still_quiet [OF still_try_candidates]
lemmas quiet_discoverEmailForProspect = still_quiet [OF still_discoverEmailForProspect]
lemmas quiet_batchDiscoverEmails = still_quiet [OF still_batchDiscoverEmails]
lemmas quiet_write_discovery = still_quiet [OF still_write_discovery]
lemmas quiet_sgMail_send = still_quiet [OF still_sgMail_send]
lemmas quiet_sendEmailToProspect = still_quiet [OF still_sendEmailToProspect]
lemmas quiet_batchSendEmails = still_quiet [OF still_batchSendEmails]
lemmas quiet_geocodeLocation = still_quiet [OF still_geocodeLocation]
lemmas quiet_fetchNextPage = still_quiet [OF still_fetchNextPage]
lemmas quiet_searchBusinesses = still_quiet [OF still_searchBusinesses]
lemmas quiet_getProspectsFromPlaces = still_quiet [OF still_getProspectsFromPlaces]

lemma quiet_console_log: "preserves (\<lambda>w. view w = v) (console_log l)"
  by (simp add: preserves_def console_log_def view_def)

lemma quiet_step:
  assumes "\<And>v. preserves (\<lambda>w. view w = v) m"
  shows "triple (\<lambda>w. P (view w)) m (\<lambda>_ w. P (view w)) (\<lambda>_ w. P (view w))"
  by (rule triple_preserves [OF preserves_view [OF assms]])

subsection \<open>A status write is an edge\<close>

lemma reaches_refl: "reaches a a"
  by (simp add: reaches_def)

lemma reaches_edge: "reaches s a \<Longrightarrow> edge a b \<Longrightarrow> reaches s b"
  by (cases a; cases b; cases s; simp add: reaches_def terminal_def)

lemma follows_refl: "follows (status_log w) (map (\<lambda>j. (job_id j, job_status j)) (jobs w)) (view w)"
  by (simp add: follows_def view_def list_all2_same reaches_refl list_all2_map1 list_all2_map2)

lemma take_extended: "take (length L0) xs = L0 \<Longrightarrow> take (length L0) (xs @ ys) = L0"
  by (metis append_eq_conv_conj append_take_drop_id append.assoc)

lemma drop_extended:
  "take (length L0) xs = L0 \<Longrightarrow> drop (length L0) (xs @ ys) = drop (length L0) xs @ ys"
  by (metis append_eq_conv_conj append_take_drop_id append.assoc)

lemma updateJobStatus_writes:
  assumes f: "follows L0 S0 (view w)" and h: "holds jid a (view w)" and e: "edge a b"
    and old: "find (\<lambda>j. job_id j = jid) (jobs w) = Some old"
  shows "follows L0 S0 (view (w\<lparr>jobs := map (\<lambda>j. if job_id j = jid
                                     then j\<lparr>job_status := b, job_updatedAt := n\<rparr>
                                     else j) (jobs w),
                    status_log := status_log w @ [(jid, job_status old, b)]\<rparr>)) \<and>
         holds jid b (view (w\<lparr>jobs := map (\<lambda>j. if job_id j = jid
                                     then j\<lparr>job_status := b, job_updatedAt := n\<rparr>
                                     else j) (jobs w),
                    status_log := status_log w @ [(jid, job_status old, b)]\<rparr>))"
proof -
  from old have "old \<in> set (jobs w)" "job_id old = jid"
    by (auto simp: find_Some_iff)
  with h have a: "job_status old = a"
    by (auto simp: holds_def view_def list_all_iff)
  from f have t: "take (length L0) (status_log w) = L0"
    and d: "list_all (\<lambda>(jid, a, b). edge a b) (drop (length L0) (status_log w))"
    and r: "list_all2 (\<lambda>(i, s) (i', s'). i' = i \<and> reaches s s') S0
              (map (\<lambda>j. (job_id j, job_status j)) (jobs w))"
    by (simp_all add: follows_def view_def)
  have r': "list_all2 (\<lambda>(i, s) (i', s'). i' = i \<and> reaches s s') S0
      (map (\<lambda>j. (job_id j, job_status j))
         (map (\<lambda>j. if job_id j = jid then j\<lparr>job_status := b, job_updatedAt := n\<rparr> else j)
            (jobs w)))"
  proof -
    have "list_all2 (\<lambda>(i, s) j. job_id j = i \<and> reaches s (job_status j) \<and>
            (job_id j = jid \<longrightarrow> job_status j = a)) S0 (jobs w)"
      using r h unfolding holds_def view_def list_all2_map2 list_all_iff
      by (auto simp: list_all2_conv_all_nth split: prod.splits)
    then show ?thesis
      unfolding list_all2_map2
      by (rule list_all2_mono) (auto intro: reaches_edge [OF _ e])
  qed
  have t': "take (length L0) (status_log w @ [(jid, job_status old, b)]) = L0"
    by (rule take_extended [OF t])
  have d': "list_all (\<lambda>(jid, a, b). edge a b)
      (drop (length L0) (status_log w @ [(jid, job_status old, b)]))"
    unfolding drop_extended [OF t] using d a e by simp
  have h': "list_all (\<lambda>(i, s). i \<noteq> jid \<or> s = b)
      (map (\<lambda>j. (job_id j, job_status j))
         (map (\<lambda>j. if job_id j = jid then j\<lparr>job_status := b, job_updatedAt := n\<rparr> else j)
            (jobs w)))"
    by (simp add: list_all_iff)
  show ?thesis
    unfolding follows_def holds_def view_def fst_conv snd_conv
    using t' d' r' h' by simp
qed

lemma updateJobStatus_edge:
  assumes "edge a b"
  shows "triple (\<lambda>w. follows L0 S0 (view w) \<and> holds jid a (view w))
           (updateJobStatus E jid b)
           (\<lambda>_ w. follows L0 S0 (view w) \<and> holds jid b (view w))
           (\<lambda>_ w. follows L0 S0 (view w) \<and> holds jid a (view w))"
  unfolding triple_def updateJobStatus_def store_call_def
proof (intro allI impI)
  fix w assume pre: "follows L0 S0 (view w) \<and> holds jid a (view w)"
  then have pre': "follows L0 S0 (view (advance w))" "holds jid a (view (advance w))"
    by simp_all
  show "case if store_fails E (clock w) then (Inl store_unavailable, advance w)
             else case case find (\<lambda>j. job_id j = jid) (jobs (advance w)) of
                       None \<Rightarrow> Inl store_not_found
                       | Some old \<Rightarrow>
                           Inr ((), advance w
                                \<lparr>jobs := map (\<lambda>j. if job_id j = jid
                                                  then j\<lparr>job_status := b,
                                                         job_updatedAt := clock (advance w)\<rparr>
                                                  else j) (jobs (advance w)),
                                 status_log := status_log (advance w) @
                                               [(jid, job_status old, b)]\<rparr>) of
                  Inl e \<Rightarrow> (Inl e, advance w) | Inr (a, w') \<Rightarrow> (Inr a, w') of
        (Inl e, w') \<Rightarrow> follows L0 S0 (view w') \<and> holds jid a (view w')
        | (Inr x, w') \<Rightarrow> follows L0 S0 (view w') \<and> holds jid b (view w')"
    using pre' updateJobStatus_writes [OF pre' assms]
    by (auto split: option.splits)
qed

lemma updateJobStatus_elsewhere:
  assumes "i \<noteq> jid"
  shows "preserves (\<lambda>w. holds i s (view w)) (updateJobStatus E jid b)"
  unfolding updateJobStatus_def
  using assms
  by (intro preserves_store_call) (auto simp: holds_def view_def advance_def list_all_iff
      split: option.splits)

lemma holds_live: "holds jid a v \<Longrightarrow> \<not> terminal a \<Longrightarrow> live jid v"
  by (cases a) (simp_all add: live_def terminal_def)

lemma edge_live: "edge a b \<Longrightarrow> \<not> terminal a"
  by (cases a; cases b; simp add: terminal_def)

text \<open>Inside a \<^verbatim>\<open>try\<close> block of a stage handler: quiet calls, and at most one status
  write, after which nothing can throw.\<close>

lemma stage_bind_quiet:
  assumes "\<And>v. preserves (\<lambda>w. view w = v) m"
    and "\<And>x. triple (\<lambda>w. at_stage L0 S0 jid a (view w)) (f x) Q
               (\<lambda>_ w. at_stage L0 S0 jid a (view w))"
  shows "triple (\<lambda>w. at_stage L0 S0 jid a (view w)) (io_bind m f) Q
           (\<lambda>_ w. at_stage L0 S0 jid a (view w))"
  by (rule triple_bind [OF quiet_step [where P = "at_stage L0 S0 jid a", OF assms(1)] assms(2)])

lemma stage_return:
  "triple (\<lambda>w. at_stage L0 S0 jid a (view w)) (io_return x) (\<lambda>_ w. follows L0 S0 (view w))
     (\<lambda>_ w. at_stage L0 S0 jid a (view w))"
  by (rule triple_return) (simp add: at_stage_def)

lemma stage_quiet:
  assumes "\<And>v. preserves (\<lambda>w. view w = v) m"
  shows "triple (\<lambda>w. at_stage L0 S0 jid a (view w)) m (\<lambda>_ w. follows L0 S0 (view w))
           (\<lambda>_ w. at_stage L0 S0 jid a (view w))"
  by (rule triple_weaken [OF quiet_step [where P = "at_stage L0 S0 jid a", OF assms]])
    (simp_all add: at_stage_def)

lemma job_dot_id_Some: "job_dot_id job = Some s \<Longrightarrow> s = job_id job"
  by (simp add: job_dot_id_def split: if_splits)

lemma quiet_with_id:
  "(\<And>s v. preserves (\<lambda>w. view w = v) (f s)) \<Longrightarrow> preserves (\<lambda>w. view w = v) (with_id i f)"
  by (rule preserves_with_id)

lemma stage_write:
  assumes "edge a b"
  shows "triple (\<lambda>w. at_stage L0 S0 (job_id job) a (view w))
           (with_id (job_dot_id job) (\<lambda>jid. updateJobStatus E jid b))
           (\<lambda>_ w. follows L0 S0 (view w)) (\<lambda>_ w. at_stage L0 S0 (job_id job) a (view w))"
proof (rule triple_with_id)
  fix s assume "job_dot_id job = Some s"
  then have s: "s = job_id job" by (rule job_dot_id_Some)
  show "triple (\<lambda>w. at_stage L0 S0 (job_id job) a (view w)) (updateJobStatus E s b)
          (\<lambda>_ w. follows L0 S0 (view w)) (\<lambda>_ w. at_stage L0 S0 (job_id job) a (view w))"
    unfolding s
    by (rule triple_weaken [OF updateJobStatus_edge [OF assms, of L0 S0 "job_id job" E]])
      (simp_all add: at_stage_def)
qed

lemma stage_write_on:
  assumes "edge a b"
  shows "triple (\<lambda>w. at_stage L0 S0 (job_id job) a (view w))
           (with_id (job_dot_id job) (\<lambda>jid. updateJobStatus E jid b))
           (\<lambda>_ w. at_stage L0 S0 (job_id job) b (view w))
           (\<lambda>_ w. at_stage L0 S0 (job_id job) a (view w))"
proof (rule triple_with_id)
  fix s assume "job_dot_id job = Some s"
  then have s: "s = job_id job" by (rule job_dot_id_Some)
  show "triple (\<lambda>w. at_stage L0 S0 (job_id job) a (view w)) (updateJobStatus E s b)
          (\<lambda>_ w. at_stage L0 S0 (job_id job) b (view w))
          (\<lambda>_ w. at_stage L0 S0 (job_id job) a (view w))"
    unfolding s
    by (rule triple_weaken [OF updateJobStatus_edge [OF assms, of L0 S0 "job_id job" E]])
      (simp_all add: at_stage_def)
qed

lemma stage_fail:
  "triple (\<lambda>w. follows L0 S0 (view w) \<and> live (job_id job) (view w))
     (with_id (job_dot_id job) (\<lambda>jid. updateJobStatus E jid Failed))
     (\<lambda>_ w. follows L0 S0 (view w))
     (\<lambda>_ w. follows L0 S0 (view w) \<and> live (job_id job) (view w))"
proof (rule triple_with_id)
  fix s assume "job_dot_id job = Some s"
  then have s: "s = job_id job" by (rule job_dot_id_Some)
  show "triple (\<lambda>w. follows L0 S0 (view w) \<and> live (job_id job) (view w))
          (updateJobStatus E s Failed) (\<lambda>_ w. follows L0 S0 (view w))
          (\<lambda>_ w. follows L0 S0 (view w) \<and> live (job_id job) (view w))"
    unfolding triple_def s
  proof (intro allI impI)
    fix w assume pre: "follows L0 S0 (view w) \<and> live (job_id job) (view w)"
    then obtain a where a: "holds (job_id job) a (view w)" "\<not> terminal a"
      by (auto simp: live_def terminal_def)
    then have e: "edge a Failed" by (cases a) (simp_all add: terminal_def)
    obtain r w' where run: "updateJobStatus E (job_id job) Failed w = (r, w')"
      by (cases "updateJobStatus E (job_id job) Failed w")
    from tripleD [OF updateJobStatus_edge [OF e] _ run, of L0 S0] pre a
    show "case updateJobStatus E (job_id job) Failed w of
            (Inl e, w') \<Rightarrow> follows L0 S0 (view w') \<and> live (job_id job) (view w')
          | (Inr x, w') \<Rightarrow> follows L0 S0 (view w')"
      unfolding run by (cases r) (auto intro: holds_live)
  qed
qed simp

lemma stage_try:
  assumes "triple (\<lambda>w. at_stage L0 S0 (job_id job) a (view w)) m
             (\<lambda>_ w. follows L0 S0 (view w))
             (\<lambda>_ w. at_stage L0 S0 (job_id job) a (view w))"
    and "\<not> terminal a"
  shows "triple (\<lambda>w. at_stage L0 S0 (job_id job) a (view w))
           (io_catch m (\<lambda>error. with_id (job_dot_id job) (\<lambda>jid. updateJobStatus E jid Failed)))
           (\<lambda>_ w. follows L0 S0 (view w))
           (\<lambda>_ w. follows L0 S0 (view w) \<and> live (job_id job) (view w))"
proof (rule triple_catch [OF assms(1)])
  fix e
  show "triple (\<lambda>w. at_stage L0 S0 (job_id job) a (view w))
          (with_id (job_dot_id job) (\<lambda>jid. updateJobStatus E jid Failed))
          (\<lambda>_ w. follows L0 S0 (view w))
          (\<lambda>_ w. follows L0 S0 (view w) \<and> live (job_id job) (view w))"
    by (rule triple_weaken [OF stage_fail])
      (auto simp: at_stage_def intro: holds_live [OF _ assms(2)])
qed

subsection \<open>The stage handlers\<close>

lemma quiet_writes: "preserves (\<lambda>w. view w = v) (io_fold (write_discovery E) results n)"
  by (intro preserves_intros quiet_write_discovery)

lemmas stage_quiet_id = stage_quiet [OF quiet_with_id]

lemma handleEmailDiscovery_stage:
  assumes "job_status job = Discovering"
  shows "triple (\<lambda>w. at_stage L0 S0 (job_id job) (job_status job) (view w))
           (handleEmailDiscovery E job)
           (\<lambda>_ w. follows L0 S0 (view w))
           (\<lambda>_ w. follows L0 S0 (view w) \<and> live (job_id job) (view w))"
  unfolding handleEmailDiscovery_def assms
  by (intro stage_try stage_bind_quiet triple_case_prod triple_if stage_return stage_write
      quiet_with_id quiet_getProspectsForJob quiet_batchDiscoverEmails quiet_writes
      quiet_incrementJobStat)
    (simp_all add: terminal_def)

lemma handleSending_stage:
  assumes "job_status job = Sending"
  shows "triple (\<lambda>w. at_stage L0 S0 (job_id job) (job_status job) (view w))
           (handleSending E job)
           (\<lambda>_ w. follows L0 S0 (view w))
           (\<lambda>_ w. follows L0 S0 (view w) \<and> live (job_id job) (view w))"
  unfolding handleSending_def assms
  by (intro stage_try stage_bind_quiet triple_if stage_return stage_write stage_quiet_id
      quiet_with_id quiet_getProspectsForSending quiet_batchSendEmails quiet_incrementJobStat)
    (simp_all add: terminal_def)

lemma handleProspecting_stage:
  assumes "job_status job = Draft \<or> job_status job = Prospecting"
  shows "triple (\<lambda>w. at_stage L0 S0 (job_id job) (job_status job) (view w))
           (handleProspecting E job)
           (\<lambda>_ w. follows L0 S0 (view w))
           (\<lambda>_ w. follows L0 S0 (view w) \<and> live (job_id job) (view w))"
  unfolding handleProspecting_def
proof (rule triple_bind [where R = "\<lambda>_ w. at_stage L0 S0 (job_id job) Prospecting (view w)"])
  show "triple (\<lambda>w. at_stage L0 S0 (job_id job) (job_status job) (view w))
          (if job_status job = Draft
           then with_id (job_dot_id job) (\<lambda>jid. updateJobStatus E jid Prospecting)
           else io_return ())
          (\<lambda>_ w. at_stage L0 S0 (job_id job) Prospecting (view w))
          (\<lambda>_ w. follows L0 S0 (view w) \<and> live (job_id job) (view w))"
  proof (cases "job_status job = Draft")
    case True
    have e: "edge Draft Prospecting" by simp
    have nt: "\<not> terminal Draft" by (simp add: terminal_def)
    have "triple (\<lambda>w. at_stage L0 S0 (job_id job) Draft (view w))
          (with_id (job_dot_id job) (\<lambda>jid. updateJobStatus E jid Prospecting))
          (\<lambda>_ w. at_stage L0 S0 (job_id job) Prospecting (view w))
          (\<lambda>_ w. follows L0 S0 (view w) \<and> live (job_id job) (view w))"
      by (rule triple_weaken [OF stage_write_on [OF e, of L0 S0 job E]])
        (auto simp: at_stage_def intro: holds_live [OF _ nt])
    with True show ?thesis by simp
  next
    case False
    with assms show ?thesis
      by (auto intro: triple_return)
  qed
next
  fix u :: unit
  show "triple (\<lambda>w. at_stage L0 S0 (job_id job) Prospecting (view w))
          (io_catch
            (io_bind (getProspectsFromPlaces E (job_dot_id job)
                        \<lparr>sp_niche = niche job, sp_targetZip = targetZip job,
                           sp_targetCountry = targetCountry job, sp_radiusKm = radiusKm job,
                           sp_maxBusinesses = maxBusinesses job\<rparr>)
              (\<lambda>prospectsData.
                  io_bind (batchCreateProspects E (job_dot_id job) prospectsData)
                   (\<lambda>_. io_bind
                          (with_id (job_dot_id job)
                            (\<lambda>jid. incrementJobStat E jid F_found (length prospectsData)))
                          (\<lambda>_. io_bind
                                 (with_id (job_dot_id job)
                                   (\<lambda>jid. incrementJobStat E jid F_withWebsite
                                      (length (filter (\<lambda>p. truthy (pd_website p))
                                                 prospectsData))))
                                 (\<lambda>_. with_id (job_dot_id job)
                                        (\<lambda>jid. updateJobStatus E jid Discovering))))))
            (\<lambda>error. with_id (job_dot_id job) (\<lambda>jid. updateJobStatus E jid Failed)))
          (\<lambda>_ w. follows L0 S0 (view w))
          (\<lambda>_ w. follows L0 S0 (view w) \<and> live (job_id job) (view w))"
    by (intro stage_try stage_bind_quiet stage_write quiet_with_id quiet_getProspectsFromPlaces
        quiet_batchCreateProspects quiet_incrementJobStat)
      (simp_all add: terminal_def)
qed

lemma processJob_stage:
  assumes "is_active job"
  shows "triple (\<lambda>w. at_stage L0 S0 (job_id job) (job_status job) (view w))
           (processJob E job)
           (\<lambda>_ w. follows L0 S0 (view w))
           (\<lambda>_ w. follows L0 S0 (view w) \<and> live (job_id job) (view w))"
  unfolding processJob_def
proof (rule triple_bind [where R = "\<lambda>_ w. at_stage L0 S0 (job_id job) (job_status job) (view w)"])
  from assms have nt: "\<not> terminal (job_status job)"
    by (auto simp: is_active_def terminal_def)
  show "triple (\<lambda>w. at_stage L0 S0 (job_id job) (job_status job) (view w))
          (console_log (Log_processing (job_dot_id job) (job_status job)))
          (\<lambda>_ w. at_stage L0 S0 (job_id job) (job_status job) (view w))
          (\<lambda>_ w. follows L0 S0 (view w) \<and> live (job_id job) (view w))"
    by (rule triple_weaken [OF quiet_step
          [where P = "at_stage L0 S0 (job_id job) (job_status job)", OF quiet_console_log]])
      (auto simp: at_stage_def intro: holds_live [OF _ nt])
next
  fix u :: unit
  show "triple (\<lambda>w. at_stage L0 S0 (job_id job) (job_status job) (view w))
          (case job_status job of
             Draft \<Rightarrow> handleProspecting E job
           | Prospecting \<Rightarrow> handleProspecting E job
           | Discovering \<Rightarrow> handleEmailDiscovery E job
           | Sending \<Rightarrow> handleSending E job
           | Completed \<Rightarrow> io_return ()
           | Failed \<Rightarrow> io_return ())
          (\<lambda>_ w. follows L0 S0 (view w))
          (\<lambda>_ w. follows L0 S0 (view w) \<and> live (job_id job) (view w))"
    using assms handleProspecting_stage [of job L0 S0 E]
      handleEmailDiscovery_stage [of job L0 S0 E] handleSending_stage [of job L0 S0 E]
    by (cases "job_status job") (simp_all add: is_active_def)
qed

lemma tick_step_stage:
  assumes "is_active job"
  shows "triple (\<lambda>w. at_stage L0 S0 (job_id job) (job_status job) (view w))
           (tick_step E job)
           (\<lambda>_ w. follows L0 S0 (view w)) (\<lambda>_ w. follows L0 S0 (view w))"
  unfolding tick_step_def
proof (rule triple_catch [OF processJob_stage [OF assms]])
  fix e
  show "triple (\<lambda>w. follows L0 S0 (view w) \<and> live (job_id job) (view w))
          (with_id (job_dot_id job) (\<lambda>jid. updateJobStatus E jid Failed))
          (\<lambda>_ w. follows L0 S0 (view w)) (\<lambda>_ w. follows L0 S0 (view w))"
    by (rule triple_weaken [OF stage_fail]) auto
qed

subsection \<open>Processing one job leaves the others where they are\<close>

lemma quiet_holds:
  "(\<And>v. preserves (\<lambda>w. view w = v) m) \<Longrightarrow> preserves (\<lambda>w. holds i s (view w)) m"
  by (rule preserves_view)

lemma updateJobStatus_elsewhere_id:
  assumes "i \<noteq> job_id job"
  shows "preserves (\<lambda>w. holds i s (view w))
           (with_id (job_dot_id job) (\<lambda>jid. updateJobStatus E jid b))"
proof (rule preserves_with_id)
  fix x assume "job_dot_id job = Some x"
  then have "x = job_id job" by (rule job_dot_id_Some)
  with assms show "preserves (\<lambda>w. holds i s (view w)) (updateJobStatus E x b)"
    by (simp add: updateJobStatus_elsewhere)
qed

lemma tick_step_elsewhere:
  assumes "i \<noteq> job_id job"
  shows "preserves (\<lambda>w. holds i s (view w)) (tick_step E job)"
  unfolding tick_step_def processJob_def handleProspecting_def handleEmailDiscovery_def
    handleSending_def
  by (intro preserves_catch preserves_bind preserves_if preserves_return preserves_case_prod
      preserves_case_status updateJobStatus_elsewhere_id [OF assms]
      quiet_holds [OF quiet_console_log] quiet_holds [OF quiet_getProspectsFromPlaces]
      quiet_holds [OF quiet_batchCreateProspects]
      quiet_holds [OF quiet_with_id [OF quiet_incrementJobStat]]
      quiet_holds [OF quiet_with_id [OF quiet_getProspectsForJob]]
      quiet_holds [OF quiet_batchDiscoverEmails]
      quiet_holds [OF quiet_writes]
      quiet_holds [OF quiet_with_id [OF quiet_getProspectsForSending]]
      quiet_holds [OF quiet_batchSendEmails])

subsection \<open>The loop of a tick\<close>

lemma process_jobs_step:
  "process_jobs E (job # rest) = io_bind (tick_step E job) (\<lambda>_. process_jobs E rest)"
  by (simp add: tick_step_def)

lemma process_jobs_stage:
  assumes "distinct (map job_id js)" and "\<forall>j\<in>set js. is_active j"
  shows "triple (\<lambda>w. follows L0 S0 (view w) \<and>
                      (\<forall>j\<in>set js. holds (job_id j) (job_status j) (view w)))
           (process_jobs E js)
           (\<lambda>_ w. follows L0 S0 (view w)) (\<lambda>_ w. follows L0 S0 (view w))"
  using assms
proof (induction js)
  case Nil
  show ?case by (simp add: triple_return)
next
  case (Cons job rest)
  let ?step = "tick_step E job"
  let ?rest = "\<lambda>w. \<forall>j\<in>set rest. holds (job_id j) (job_status j) (view w)"
  from Cons.prems have act: "is_active job" and ne: "\<forall>j\<in>set rest. job_id j \<noteq> job_id job"
    by (auto simp: image_iff)
  have fr: "preserves ?rest ?step"
    by (rule preserves_ball) (rule tick_step_elsewhere, use ne in auto)
  have st: "triple (\<lambda>w. follows L0 S0 (view w) \<and>
                        (\<forall>j\<in>set (job # rest). holds (job_id j) (job_status j) (view w)))
              ?step (\<lambda>_ w. follows L0 S0 (view w) \<and> ?rest w) (\<lambda>_ w. follows L0 S0 (view w))"
    by (rule triple_weaken [OF triple_frame [OF tick_step_stage [OF act, of L0 S0 E] fr]])
      (auto simp: at_stage_def)
  from Cons.prems have "triple (\<lambda>w. follows L0 S0 (view w) \<and> ?rest w) (process_jobs E rest)
      (\<lambda>_ w. follows L0 S0 (view w)) (\<lambda>_ w. follows L0 S0 (view w))"
    by (intro Cons.IH) auto
  with st show ?case
    unfolding process_jobs_step by (rule triple_bind)
qed

lemma loaded_jobs:
  "set (filter is_active (take n (rev (sort_key job_createdAt js)))) \<subseteq> set js"
  by (auto dest: in_set_takeD)

lemma loaded_distinct:
  assumes "distinct (map job_id js)"
  shows "distinct (map job_id (filter is_active (take n (rev (sort_key job_createdAt js)))))"
proof -
  from assms have d: "distinct js" and i: "inj_on job_id (set js)"
    by (simp_all add: distinct_map)
  have "distinct (filter is_active (take n (rev (sort_key job_createdAt js))))"
    using d by (simp add: distinct_take)
  moreover have "inj_on job_id (set (filter is_active (take n (rev (sort_key job_createdAt js)))))"
    by (rule inj_on_subset [OF i loaded_jobs])
  ultimately show ?thesis by (simp add: distinct_map)
qed

lemma GET_cron_run:
  "GET_cron E auth w =
     (if NODE_ENV E = Some ''production'' \<and>
         auth \<noteq> Some (''Bearer '' @ (case CRON_SECRET E of None \<Rightarrow> ''undefined'' | Some s \<Rightarrow> s))
      then (Inr (Response 401 (R_error ''Unauthorized'')), w)
      else if store_fails E (clock w)
      then (Inr (Response 500 (R_error ''Cron processing failed'')), advance w)
      else (case process_jobs E
                   (filter is_active (take 50 (rev (sort_key job_createdAt (jobs w)))))
                   (advance w) of
              (Inl e, w') \<Rightarrow> (Inr (Response 500 (R_error ''Cron processing failed'')), w')
            | (Inr u, w') \<Rightarrow>
                (Inr (Response 200 (R_cron (length
                   (filter is_active (take 50 (rev (sort_key job_createdAt (jobs w)))))))), w')))"
  by (simp add: GET_cron_def getAllJobs_def io_defs advance_def split: prod.splits sum.splits)

lemma GET_cron_follows:
  assumes "distinct (map job_id (jobs w))"
  shows "follows (status_log w) (map (\<lambda>j. (job_id j, job_status j)) (jobs w))
           (view (snd (GET_cron E auth w)))"
proof -
  let ?L0 = "status_log w" and ?S0 = "map (\<lambda>j. (job_id j, job_status j)) (jobs w)"
  let ?active = "filter is_active (take 50 (rev (sort_key job_createdAt (jobs w))))"
  have start: "follows ?L0 ?S0 (view (advance w))"
    using follows_refl [of w] by simp
  have known: "holds (job_id j) (job_status j) (view (advance w))" if "j \<in> set ?active" for j
  proof -
    from that loaded_jobs have j: "j \<in> set (jobs w)" by blast
    from assms have "inj_on job_id (set (jobs w))" by (simp add: distinct_map)
    with j show ?thesis
      by (auto simp: holds_def view_def list_all_iff advance_def dest: inj_onD)
  qed
  obtain r w' where run: "process_jobs E ?active (advance w) = (r, w')"
    by (cases "process_jobs E ?active (advance w)")
  have "\<forall>j\<in>set ?active. is_active j" by simp
  from tripleD [OF process_jobs_stage [OF loaded_distinct [OF assms] this] _ run, of ?L0 ?S0]
    start known
  have "follows ?L0 ?S0 (view w')"
    by (cases r) auto
  with start follows_refl [of w] run show ?thesis
    by (cases r) (simp_all add: GET_cron_run)
qed

lemma reaches_stage:
  "reaches a b \<Longrightarrow> stage a \<le> stage b \<and> (terminal a \<longrightarrow> b = a)"
  by (auto simp: reaches_def)

text \<open>
  C7. A tick of the progression engine, from any state whose job documents have distinct
  ids, whatever the store and the providers do:
  \<^item> the transitions it writes are appended to those written before, and each of them
    goes along an edge of the pipeline \<^verbatim>\<open>draft\<close>, \<^verbatim>\<open>prospecting\<close>, \<^verbatim>\<open>discovering\<close>, \<^verbatim>\<open>sending\<close>,
    \<^verbatim>\<open>completed\<close>, or from one of the first four to \<^verbatim>\<open>failed\<close>;
  \<^item> every job keeps its id and is afterwards at its old stage or a later one, and a job
    that was \<^verbatim>\<open>completed\<close> or \<^verbatim>\<open>failed\<close> has the status it had;
  \<^item> the ids are still distinct, so the same holds of the next tick.
\<close>

theorem status_follows_pipeline:
  assumes "distinct (map job_id (jobs w))"
  shows "take (length (status_log w)) (status_log (snd (GET_cron E auth w))) = status_log w \<and>
         list_all (\<lambda>(jid, a, b). edge a b)
           (drop (length (status_log w)) (status_log (snd (GET_cron E auth w)))) \<and>
         list_all2 (\<lambda>j j'. job_id j' = job_id j \<and> stage (job_status j) \<le> stage (job_status j') \<and>
                      (terminal (job_status j) \<longrightarrow> job_status j' = job_status j))
           (jobs w) (jobs (snd (GET_cron E auth w))) \<and>
         distinct (map job_id (jobs (snd (GET_cron E auth w))))"
proof -
  let ?w' = "snd (GET_cron E auth w)"
  from GET_cron_follows [OF assms, of E auth]
  have t: "take (length (status_log w)) (status_log ?w') = status_log w"
    and d: "list_all (\<lambda>(jid, a, b). edge a b) (drop (length (status_log w)) (status_log ?w'))"
    and r: "list_all2 (\<lambda>j j'. job_id j' = job_id j \<and> reaches (job_status j) (job_status j'))
              (jobs w) (jobs ?w')"
    by (simp_all add: follows_def view_def list_all2_map1 list_all2_map2)
  from r have s: "list_all2 (\<lambda>j j'. job_id j' = job_id j \<and>
      stage (job_status j) \<le> stage (job_status j') \<and>
      (terminal (job_status j) \<longrightarrow> job_status j' = job_status j)) (jobs w) (jobs ?w')"
    by (rule list_all2_mono) (use reaches_stage in blast)
  from r have "list_all2 (\<lambda>j j'. job_id j = job_id j') (jobs w) (jobs ?w')"
    by (rule list_all2_mono) simp
  then have "map job_id (jobs w) = map job_id (jobs ?w')"
    by (simp add: list.rel_eq [symmetric] list.rel_map)
  with assms have "distinct (map job_id (jobs ?w'))" by simp
  with t d s show ?thesis by simp
qed

text \<open>A run of the theorem on four jobs. The draft job becomes \<^verbatim>\<open>prospecting\<close> and then,
  the geocoder finding nothing, \<^verbatim>\<open>failed\<close>; the discovering job, with no prospect to look
  at, becomes \<^verbatim>\<open>sending\<close>; the sending job, with nothing to send, \<^verbatim>\<open>completed\<close>; the completed
  job is left alone.\<close>

theorem status_follows_pipeline_witness:
  "distinct (map job_id (jobs world_pipeline)) \<and>
   status_log (snd (GET_cron env0 None world_pipeline)) =
     [(''j1'', Draft, Prospecting), (''j1'', Prospecting, Failed),
      (''j2'', Discovering, Sending), (''j3'', Sending, Completed)] \<and>
   list_all (\<lambda>(jid, a, b). edge a b)
     (drop (length (status_log world_pipeline))
        (status_log (snd (GET_cron env0 None world_pipeline)))) \<and>
   map job_status (jobs (snd (GET_cron env0 None world_pipeline))) =
     [Failed, Sending, Completed, Completed]"
proof -
  have d: "distinct (map job_id (jobs world_pipeline))"
    by (simp add: world_pipeline_def sample_defs)
  have run: "status_log (snd (GET_cron env0 None world_pipeline)) =
     [(''j1'', Draft, Prospecting), (''j1'', Prospecting, Failed),
      (''j2'', Discovering, Sending), (''j3'', Sending, Completed)] \<and>
    map job_status (jobs (snd (GET_cron env0 None world_pipeline))) =
     [Failed, Sending, Completed, Completed]"
    by (simp add: cron_defs io_defs store_defs sample_defs world_pipeline_def
        getProspectsFromPlaces_def searchBusinesses_def geocodeLocation_def provider_call_def
        truthy_def js_error_of_def)
  from status_follows_pipeline [OF d, of env0 None]
  have "list_all (\<lambda>(jid, a, b). edge a b)
     (drop (length (status_log world_pipeline))
        (status_log (snd (GET_cron env0 None world_pipeline))))"
    by simp
  with d run show ?thesis by simp
qed


subsection \<open>A tick and its failures\<close>

lemma world_created_run:
  "world_created =
     world0\<lparr>jobs :=
        [\<lparr>job_id = ''dd'', job_has_id = False, userId = ''system_user_v1'',
          job_status = Draft, job_createdAt = 1, job_updatedAt = 1, niche = ''bakery'',
          targetZip = ''10001'', targetCountry = ''US'', radiusKm = 50, maxBusinesses = 4,
          stats = zero_stats\<rparr>,
         \<lparr>job_id = ''ddd'', job_has_id = False, userId = ''system_user_v1'',
          job_status = Draft, job_createdAt = 2, job_updatedAt = 2, niche = ''bakery'',
          targetZip = ''10001'', targetCountry = ''US'', radiusKm = 50, maxBusinesses = 4,
          stats = zero_stats\<rparr>],
       clock := 2\<rparr>"
  by (simp add: world_created_def POST_jobs_def sample_request_def io_defs sanitize_defs
      createJob_def env0_def world0_def)

lemma created_tick:
  "GET_cron env0 None world_created =
     (Inr (Response 500 (R_error ''Cron processing failed'')),
      world_created\<lparr>console := [Log_processing None Draft], clock := 3\<rparr>)"
  unfolding world_created_run
  by (simp add: cron_defs io_defs store_defs sample_defs)

lemma outage_tick:
  "GET_cron env_outage None world_two_drafts =
     (Inr (Response 500 (R_error ''Cron processing failed'')),
      world_two_drafts\<lparr>console := [Log_processing (Some ''j1'') Draft], clock := 3\<rparr>)"
  by (simp add: cron_defs io_defs store_defs sample_defs world_two_drafts_def env_outage_def)

lemma crowded_loaded:
  "filter is_active (take 50 (rev (sort_key job_createdAt (jobs world_crowded)))) = []"
proof -
  let ?cs = "map (\<lambda>n. sample_job (replicate n CHR ''c'') n Completed) [1..<51]"
  have keys: "map job_createdAt (sample_job ''old'' 0 Draft # ?cs) = 0 # [1..<51]"
    by (simp add: sample_job_def comp_def)
  have "sorted (map job_createdAt (sample_job ''old'' 0 Draft # ?cs))"
    unfolding keys by simp
  then have "sort_key job_createdAt (sample_job ''old'' 0 Draft # ?cs) =
      sample_job ''old'' 0 Draft # ?cs"
    by (rule sort_key_id_if_sorted)
  moreover have "take 50 (rev ?cs @ [sample_job ''old'' 0 Draft]) = rev ?cs"
    by simp
  moreover have "filter is_active (rev ?cs) = []"
    by (simp add: filter_empty_conv is_active_def sample_job_def)
  ultimately show ?thesis
    by (simp add: world_crowded_def)
qed

lemma crowded_tick:
  "GET_cron env0 None world_crowded =
     (Inr (Response 200 (R_cron 0)), world_crowded\<lparr>clock := 1\<rparr>)"
  unfolding GET_cron_run crowded_loaded
  by (simp add: env0_def io_defs advance_def world_crowded_def world0_def)

lemma crowded_active:
  "map (\<lambda>j. (job_id j, job_status j)) (filter is_active (jobs world_crowded)) =
     [(''old'', Draft)]"
  by (simp add: world_crowded_def filter_map comp_def is_active_def sample_job_def)

text \<open>
  C3 fails in the code, on three counts.

  \<^item> A document that \<^verbatim>\<open>createJob\<close> writes has no \<^verbatim>\<open>id\<close> field, and \<^verbatim>\<open>getAllJobs\<close> returns
    \<^verbatim>\<open>doc.data()\<close>, so \<^verbatim>\<open>job.id\<close> is undefined for it. After two requests
    \<^verbatim>\<open>POST /api/jobs\<close> the store holds two draft jobs. The tick loads both and processes
    the newer one: \<^verbatim>\<open>handleProspecting\<close> calls \<^verbatim>\<open>updateJobStatus(job.id, 'prospecting')\<close>
    outside its \<^verbatim>\<open>try\<close>, which throws; the \<^verbatim>\<open>catch\<close> of the loop calls
    \<^verbatim>\<open>updateJobStatus(job.id, 'failed')\<close>, which throws as well, and that exception leaves the
    loop. The tick answers 500 although the job list was fetched; the job is not marked
    \<^verbatim>\<open>failed\<close>; the other job is not processed.
  \<^item> The same happens to jobs whose documents hold an \<^verbatim>\<open>id\<close> field when the store fails two
    calls in a row: the write of \<^verbatim>\<open>prospecting\<close> fails, the write of \<^verbatim>\<open>failed\<close> in the
    \<^verbatim>\<open>catch\<close> of the loop fails, and the tick answers 500 with the first job still
    \<^verbatim>\<open>draft\<close> and the second never processed.
  \<^item> \<^verbatim>\<open>getAllJobs\<close> returns the 50 newest jobs only. With fifty completed jobs created
    after a draft one, the tick loads no active job: it answers 200 with a count of 0 and
    the draft job is left as it was.
\<close>

theorem tick_aborts_when_failure_write_throws:
  "map (\<lambda>j. (job_dot_id j, job_status j)) (jobs world_created) =
     [(None, Draft), (None, Draft)] \<and>
   fst (GET_cron env0 None world_created) =
     Inr (Response 500 (R_error ''Cron processing failed'')) \<and>
   map job_status (jobs (snd (GET_cron env0 None world_created))) = [Draft, Draft] \<and>
   console (snd (GET_cron env0 None world_created)) = [Log_processing None Draft] \<and>
   fst (GET_cron env_outage None world_two_drafts) =
     Inr (Response 500 (R_error ''Cron processing failed'')) \<and>
   map (\<lambda>j. (job_id j, job_status j)) (jobs (snd (GET_cron env_outage None world_two_drafts))) =
     [(''j1'', Draft), (''j2'', Draft)] \<and>
   console (snd (GET_cron env_outage None world_two_drafts)) =
     [Log_processing (Some ''j1'') Draft] \<and>
   map (\<lambda>j. (job_id j, job_status j)) (filter is_active (jobs world_crowded)) =
     [(''old'', Draft)] \<and>
   fst (GET_cron env0 None world_crowded) = Inr (Response 200 (R_cron 0)) \<and>
   jobs (snd (GET_cron env0 None world_crowded)) = jobs world_crowded"
proof -
  have a: "map (\<lambda>j. (job_dot_id j, job_status j)) (jobs world_created) =
      [(None, Draft), (None, Draft)]"
    by (simp add: world_created_run job_dot_id_def world0_def)
  have b: "map job_status (jobs world_created) = [Draft, Draft]"
    by (simp add: world_created_run world0_def)
  have c: "map (\<lambda>j. (job_id j, job_status j)) (jobs world_two_drafts) =
      [(''j1'', Draft), (''j2'', Draft)]"
    by (simp add: world_two_drafts_def world0_def sample_job_def)
  show ?thesis
    unfolding created_tick outage_tick crowded_tick
    using a b c crowded_active by simp
qed
subsection \<open>The unsubscribe link\<close>

lemma unsubscribe_mismatch:
  assumes tok: "token \<noteq> []"
    and dec: "split_on CHR '':'' (decodeBase64Url E token) = pid # addr # rest"
    and ne: "pid \<noteq> []" "addr \<noteq> []"
    and ex: "find (\<lambda>p. prospect_id p = pid) (prospects w) = Some prospect"
    and mis: "discoveredEmail prospect \<noteq> Some addr"
  shows "GET_unsubscribe E (Some token) w =
           (Inr (if store_fails E (clock w)
                 then Response 500 (R_text ''An error occurred processing your unsubscribe request'')
                 else Response 400 (R_text ''Invalid unsubscribe link: email mismatch'')),
            advance w)"
  using assms
  by (simp add: GET_unsubscribe_def truthy_def or_else_def at_index_def io_defs)

lemma unsubscribe_match:
  assumes tok: "token \<noteq> []"
    and dec: "split_on CHR '':'' (decodeBase64Url E token) = pid # addr # rest"
    and ne: "pid \<noteq> []" "addr \<noteq> []"
    and ex: "find (\<lambda>p. prospect_id p = pid) (prospects w) = Some prospect"
    and same: "discoveredEmail prospect = Some addr"
    and dom: "at_index (split_on CHR ''@'' addr) 1 = Some d"
    and ok: "\<not> store_fails E (clock w)" "\<not> store_fails E (Suc (clock w))"
            "\<not> store_fails E (Suc (Suc (clock w)))"
  shows "GET_unsubscribe E (Some token) w =
           (Inr (Response 200 (R_confirmation addr)),
            w\<lparr>unsubscribes := unsubscribes w @
                 [\<lparr>unsub_id = [], unsub_email = toLowerCase addr, unsub_domain = toLowerCase d,
                   unsub_at = clock w + 2, unsub_jobId = Some (jobId prospect)\<rparr>],
              prospects := map (\<lambda>p. if prospect_id p = pid
                  then p\<lparr>prospect_status := Unsubscribed, unsubscribedAt := Some (clock w + 3),
                         prospect_updatedAt := clock w + 3\<rparr>
                  else p) (prospects w),
              clock := clock w + 3\<rparr>)"
  using assms
  by (simp add: GET_unsubscribe_def truthy_def or_else_def at_index_def io_defs
      addUnsubscribe_def update_prospect_def)

text \<open>
  C8. Take an unsubscribe request whose token decodes to \<^verbatim>\<open>prospectId:email\<close>, both parts
  non-empty, for a prospect that exists. If the decoded email differs from the prospect's
  \<^verbatim>\<open>discoveredEmail\<close>, the request is rejected (status 400, or 500 when the read of the
  prospect fails) and neither the ledger nor any prospect is written. If it matches, the
  email is an address (it holds an at sign) and the three store calls succeed, the
  response is the confirmation page, one record for the lowercased email and its domain
  is appended to the ledger, and the prospect is marked \<^verbatim>\<open>unsubscribed\<close> with the time of
  the write.
\<close>

theorem unsubscribe_link_verified:
  assumes "token \<noteq> []"
    and "split_on CHR '':'' (decodeBase64Url E token) = pid # addr # rest"
    and "pid \<noteq> []" and "addr \<noteq> []"
    and "find (\<lambda>p. prospect_id p = pid) (prospects w) = Some prospect"
  shows
    "(discoveredEmail prospect \<noteq> Some addr \<longrightarrow>
        fst (GET_unsubscribe E (Some token) w) =
          Inr (if store_fails E (clock w)
               then Response 500 (R_text ''An error occurred processing your unsubscribe request'')
               else Response 400 (R_text ''Invalid unsubscribe link: email mismatch'')) \<and>
        unsubscribes (snd (GET_unsubscribe E (Some token) w)) = unsubscribes w \<and>
        prospects (snd (GET_unsubscribe E (Some token) w)) = prospects w) \<and>
     (discoveredEmail prospect = Some addr \<and> CHR ''@'' \<in> set addr \<and>
      \<not> store_fails E (clock w) \<and> \<not> store_fails E (Suc (clock w)) \<and>
      \<not> store_fails E (Suc (Suc (clock w))) \<longrightarrow>
        fst (GET_unsubscribe E (Some token) w) = Inr (Response 200 (R_confirmation addr)) \<and>
        (\<exists>d. at_index (split_on CHR ''@'' addr) 1 = Some d \<and>
           unsubscribes (snd (GET_unsubscribe E (Some token) w)) =
             unsubscribes w @
               [\<lparr>unsub_id = [], unsub_email = toLowerCase addr, unsub_domain = toLowerCase d,
                 unsub_at = clock w + 2, unsub_jobId = Some (jobId prospect)\<rparr>]) \<and>
        prospects (snd (GET_unsubscribe E (Some token) w)) =
          map (\<lambda>p. if prospect_id p = pid
                then p\<lparr>prospect_status := Unsubscribed, unsubscribedAt := Some (clock w + 3),
                       prospect_updatedAt := clock w + 3\<rparr>
                else p) (prospects w))"
proof (intro conjI impI)
  assume mis: "discoveredEmail prospect \<noteq> Some addr"
  note run = unsubscribe_mismatch [OF assms mis]
  show "fst (GET_unsubscribe E (Some token) w) =
          Inr (if store_fails E (clock w)
               then Response 500 (R_text ''An error occurred processing your unsubscribe request'')
               else Response 400 (R_text ''Invalid unsubscribe link: email mismatch''))"
    by (simp add: run)
  show "unsubscribes (snd (GET_unsubscribe E (Some token) w)) = unsubscribes w"
    by (simp add: run advance_def)
  show "prospects (snd (GET_unsubscribe E (Some token) w)) = prospects w"
    by (simp add: run advance_def)
next
  assume a: "discoveredEmail prospect = Some addr \<and> CHR ''@'' \<in> set addr \<and>
      \<not> store_fails E (clock w) \<and> \<not> store_fails E (Suc (clock w)) \<and>
      \<not> store_fails E (Suc (Suc (clock w)))"
  then obtain d where d: "at_index (split_on CHR ''@'' addr) 1 = Some d"
    using split_on_has_second [of "CHR ''@''" addr] by blast
  from a have run: "GET_unsubscribe E (Some token) w =
           (Inr (Response 200 (R_confirmation addr)),
            w\<lparr>unsubscribes := unsubscribes w @
                 [\<lparr>unsub_id = [], unsub_email = toLowerCase addr, unsub_domain = toLowerCase d,
                   unsub_at = clock w + 2, unsub_jobId = Some (jobId prospect)\<rparr>],
              prospects := map (\<lambda>p. if prospect_id p = pid
                  then p\<lparr>prospect_status := Unsubscribed, unsubscribedAt := Some (clock w + 3),
                         prospect_updatedAt := clock w + 3\<rparr>
                  else p) (prospects w),
              clock := clock w + 3\<rparr>)"
    by (intro unsubscribe_match [OF assms _ d]) simp_all
  show "fst (GET_unsubscribe E (Some token) w) = Inr (Response 200 (R_confirmation addr))"
    by (simp add: run)
  show "\<exists>d. at_index (split_on CHR ''@'' addr) 1 = Some d \<and>
           unsubscribes (snd (GET_unsubscribe E (Some token) w)) =
             unsubscribes w @
               [\<lparr>unsub_id = [], unsub_email = toLowerCase addr, unsub_domain = toLowerCase d,
                 unsub_at = clock w + 2, unsub_jobId = Some (jobId prospect)\<rparr>]"
    using d by (simp add: run)
  show "prospects (snd (GET_unsubscribe E (Some token) w)) =
          map (\<lambda>p. if prospect_id p = pid
                then p\<lparr>prospect_status := Unsubscribed, unsubscribedAt := Some (clock w + 3),
                       prospect_updatedAt := clock w + 3\<rparr>
                else p) (prospects w)"
    by (simp add: run)
qed

text \<open>A run of the theorem on the sample prospect, whose discovered address is
  \<^verbatim>\<open>info@foo.com\<close>: the token of \<^verbatim>\<open>p1:contact@foo.com\<close> is rejected with status 400 and
  nothing is written; the token of \<^verbatim>\<open>p1:info@foo.com\<close> adds one ledger record and marks
  the prospect \<^verbatim>\<open>unsubscribed\<close>.\<close>

theorem unsubscribe_link_verified_witness:
  "fst (GET_unsubscribe env0 (Some ''cDE6Y29udGFjdEBmb28uY29t'') world_sending) =
     Inr (Response 400 (R_text ''Invalid unsubscribe link: email mismatch'')) \<and>
   unsubscribes (snd (GET_unsubscribe env0 (Some ''cDE6Y29udGFjdEBmb28uY29t'') world_sending)) = [] \<and>
   map prospect_status
     (prospects (snd (GET_unsubscribe env0 (Some ''cDE6Y29udGFjdEBmb28uY29t'') world_sending))) =
     [Email_found] \<and>
   fst (GET_unsubscribe env0 (Some ''cDE6aW5mb0Bmb28uY29t'') world_sending) =
     Inr (Response 200 (R_confirmation ''info@foo.com'')) \<and>
   map (\<lambda>u. (unsub_email u, unsub_domain u))
     (unsubscribes (snd (GET_unsubscribe env0 (Some ''cDE6aW5mb0Bmb28uY29t'') world_sending))) =
     [(''info@foo.com'', ''foo.com'')] \<and>
   map prospect_status
     (prospects (snd (GET_unsubscribe env0 (Some ''cDE6aW5mb0Bmb28uY29t'') world_sending))) =
     [Unsubscribed]"
proof -
  let ?p = "sample_prospect ''p1'' ''j1'' Email_found (Some ''info@foo.com'')"
  have d1: "split_on CHR '':'' (decodeBase64Url env0 ''cDE6Y29udGFjdEBmb28uY29t'') =
              ''p1'' # ''contact@foo.com'' # []"
    by (simp add: decodeBase64Url_def env0_def sample_base64_decode_def)
  have d2: "split_on CHR '':'' (decodeBase64Url env0 ''cDE6aW5mb0Bmb28uY29t'') =
              ''p1'' # ''info@foo.com'' # []"
    by (simp add: decodeBase64Url_def env0_def sample_base64_decode_def)
  have ex: "find (\<lambda>p. prospect_id p = ''p1'') (prospects world_sending) = Some ?p"
    by (simp add: world_sending_def sample_prospect_def)
  have ok: "\<not> store_fails env0 n" for n
    by (simp add: env0_def)
  have dom: "at_index (split_on CHR ''@'' ''info@foo.com'') 1 = Some ''foo.com''"
    by (simp add: at_index_def)
  have low: "toLowerCase ''info@foo.com'' = ''info@foo.com''" "toLowerCase ''foo.com'' = ''foo.com''"
    by (simp_all add: toLowerCase_def lower_of_def)
  from unsubscribe_link_verified [OF _ d1 _ _ ex] ok
  have m: "fst (GET_unsubscribe env0 (Some ''cDE6Y29udGFjdEBmb28uY29t'') world_sending) =
      Inr (Response 400 (R_text ''Invalid unsubscribe link: email mismatch'')) \<and>
    unsubscribes (snd (GET_unsubscribe env0 (Some ''cDE6Y29udGFjdEBmb28uY29t'') world_sending)) =
      unsubscribes world_sending \<and>
    prospects (snd (GET_unsubscribe env0 (Some ''cDE6Y29udGFjdEBmb28uY29t'') world_sending)) =
      prospects world_sending"
    by (simp add: sample_prospect_def)
  from unsubscribe_link_verified [OF _ d2 _ _ ex] ok dom
  have k: "fst (GET_unsubscribe env0 (Some ''cDE6aW5mb0Bmb28uY29t'') world_sending) =
      Inr (Response 200 (R_confirmation ''info@foo.com'')) \<and>
    unsubscribes (snd (GET_unsubscribe env0 (Some ''cDE6aW5mb0Bmb28uY29t'') world_sending)) =
      unsubscribes world_sending @
        [\<lparr>unsub_id = [], unsub_email = toLowerCase ''info@foo.com'',
          unsub_domain = toLowerCase ''foo.com'',
          unsub_at = clock world_sending + 2, unsub_jobId = Some (jobId ?p)\<rparr>] \<and>
    prospects (snd (GET_unsubscribe env0 (Some ''cDE6aW5mb0Bmb28uY29t'') world_sending)) =
      map (\<lambda>p. if prospect_id p = ''p1''
            then p\<lparr>prospect_status := Unsubscribed,
                   unsubscribedAt := Some (clock world_sending + 3),
                   prospect_updatedAt := clock world_sending + 3\<rparr>
            else p) (prospects world_sending)"
    by (simp add: sample_prospect_def)
  show ?thesis
    using m k by (simp add: low world_sending_def world0_def sample_prospect_def)
qed

subsection \<open>Job creation\<close>

lemma sanitizeRadius_range: "1 \<le> sanitizeRadius r \<and> sanitizeRadius r \<le> 50"
  by (cases r) (auto simp: sanitizeRadius_def isNaN_def le_floor_iff floor_le_iff)

lemma sanitizeMaxBusinesses_range:
  "1 \<le> sanitizeMaxBusinesses m \<and> sanitizeMaxBusinesses m \<le> 1000"
  by (cases m) (auto simp: sanitizeMaxBusinesses_def isNaN_def le_floor_iff floor_le_iff)

lemma POST_jobs_created:
  assumes "POST_jobs E (Some b) w = (Inr (Response 201 rep), w')"
    and "req_radiusKm b = Some r" and "req_maxBusinesses b = Some m"
  shows "\<exists>job. jobs w' = jobs w @ [job] \<and> job_status job = Draft \<and> stats job = zero_stats \<and>
           radiusKm job = sanitizeRadius r \<and> maxBusinesses job = sanitizeMaxBusinesses m"
  using assms
  by (auto simp: POST_jobs_def io_defs createJob_def
      split: option.splits if_splits prod.splits sum.splits)

text \<open>
  C9 (as amended). A job that \<^verbatim>\<open>POST /api/jobs\<close> creates is appended in status
  \<^verbatim>\<open>draft\<close> with all six counters zero; its radius is an integer in 1..50 and its
  business cap an integer in 1..1000. A value above the maximum becomes the maximum; a
  value below 1 becomes the default (5 km, 10 businesses), not the minimum; a value in
  range is rounded to the nearest integer.
\<close>

theorem job_creation_sanitized:
  assumes "POST_jobs E (Some b) w = (Inr (Response 201 rep), w')"
    and "req_radiusKm b = Some r" and "req_maxBusinesses b = Some m"
  shows "\<exists>job. jobs w' = jobs w @ [job] \<and> job_status job = Draft \<and> stats job = zero_stats \<and>
           radiusKm job = sanitizeRadius r \<and> maxBusinesses job = sanitizeMaxBusinesses m \<and>
           1 \<le> radiusKm job \<and> radiusKm job \<le> 50 \<and>
           1 \<le> maxBusinesses job \<and> maxBusinesses job \<le> 1000 \<and>
           (js_greater r 50 \<longrightarrow> radiusKm job = 50) \<and>
           (js_greater m 1000 \<longrightarrow> maxBusinesses job = 1000) \<and>
           (js_less r 1 \<longrightarrow> radiusKm job = 5) \<and>
           (js_less m 1 \<longrightarrow> maxBusinesses job = 10) \<and>
           (\<not> js_less r 1 \<and> \<not> js_greater r 50 \<longrightarrow> radiusKm job = Math_round r) \<and>
           (\<not> js_less m 1 \<and> \<not> js_greater m 1000 \<longrightarrow> maxBusinesses job = Math_round m)"
proof -
  from POST_jobs_created [OF assms] obtain job where
    j: "jobs w' = jobs w @ [job]" "job_status job = Draft" "stats job = zero_stats"
       "radiusKm job = sanitizeRadius r" "maxBusinesses job = sanitizeMaxBusinesses m"
    by blast
  have nn: "\<not> isNaN r" "\<not> isNaN m"
    using assms
    by (auto simp: POST_jobs_def io_defs falsy_number_def isNaN_def
        split: option.splits if_splits prod.splits sum.splits)
  have r: "(js_greater r 50 \<longrightarrow> sanitizeRadius r = 50) \<and> (js_less r 1 \<longrightarrow> sanitizeRadius r = 5) \<and>
           (\<not> js_less r 1 \<and> \<not> js_greater r 50 \<longrightarrow> sanitizeRadius r = Math_round r)"
    using nn by (cases r) (auto simp: sanitizeRadius_def)
  have m: "(js_greater m 1000 \<longrightarrow> sanitizeMaxBusinesses m = 1000) \<and>
           (js_less m 1 \<longrightarrow> sanitizeMaxBusinesses m = 10) \<and>
           (\<not> js_less m 1 \<and> \<not> js_greater m 1000 \<longrightarrow> sanitizeMaxBusinesses m = Math_round m)"
    using nn by (cases m) (auto simp: sanitizeMaxBusinesses_def)
  show ?thesis
    using j r m sanitizeRadius_range [of r] sanitizeMaxBusinesses_range [of m] by auto
qed

lemma sample_post_run:
  "POST_jobs env0 (Some (sample_request (Fin 75) (Fin (7 / 2)))) world0 =
     (Inr (Response 201 (R_job_created ''dd'' Draft)),
      world0\<lparr>jobs := [\<lparr>job_id = ''dd'', job_has_id = False, userId = ''system_user_v1'',
         job_status = Draft,
         job_createdAt = 1, job_updatedAt = 1, niche = ''bakery'', targetZip = ''10001'',
         targetCountry = ''US'', radiusKm = 50, maxBusinesses = 4, stats = zero_stats\<rparr>],
         clock := 1\<rparr>)"
  by (simp add: POST_jobs_def sample_request_def io_defs sanitize_defs createJob_def env0_def
      world0_def)

text \<open>A run of the theorem: radius 75 and cap 3.5 give a draft job with radius 50 and
  cap 4.\<close>

theorem job_creation_sanitized_witness:
  "\<exists>job. jobs (snd (POST_jobs env0 (Some (sample_request (Fin 75) (Fin (7 / 2)))) world0)) = [job] \<and>
         job_status job = Draft \<and> stats job = zero_stats \<and>
         radiusKm job = 50 \<and> maxBusinesses job = 4"
proof -
  have "req_radiusKm (sample_request (Fin 75) (Fin (7 / 2))) = Some (Fin 75)"
    and "req_maxBusinesses (sample_request (Fin 75) (Fin (7 / 2))) = Some (Fin (7 / 2))"
    by (simp_all add: sample_request_def)
  from job_creation_sanitized [OF sample_post_run this]
  show ?thesis
    by (simp add: sample_post_run)
qed

text \<open>C9 as stated fails: a radius of -3 and a cap of 0.5 are below the minimum 1, and the
  created job has radius 5 and cap 10.\<close>

theorem below_minimum_counterexample:
  "\<exists>job. jobs (snd (POST_jobs env0 (Some (sample_request (Fin (- 3)) (Fin (1 / 2)))) world0)) = [job] \<and>
         radiusKm job = 5 \<and> radiusKm job \<noteq> 1 \<and> maxBusinesses job = 10 \<and> maxBusinesses job \<noteq> 1"
  by (simp add: POST_jobs_def sample_request_def io_defs sanitize_defs createJob_def env0_def
      world0_def)

subsection \<open>Manual send\<close>






end
